theory Spec2Isabelle
  imports Main "HOL-Library.Word"
begin

unbundle bit_operations_syntax

section \<open>Values of the runtime\<close>

text \<open>
  The two request handlers of the repository are the \<^verbatim>\<open>action\<close> exports of
  \<^verbatim>\<open>app/routes/api.remove.ts\<close>: the Direct-Upload handler (lines 4 to 65) and the
  Catalog-Aware handler (lines 145 to 202). Both are straight-line asynchronous code over
  collaborators that live outside the repository: the authentication call, the parser of
  the multi-part body, the process environment, the dynamic import of the provider's
  library and the provider's two calls. Every collaborator is a field of the record
  \<open>world\<close> below; every \<^verbatim>\<open>await\<close> that can reject is a value of a sum type, with
  \<open>Inl\<close> for the thrown value.
\<close>

type_synonym byte = "8 word"

text \<open>
  A thrown JavaScript value. The Catalog-Aware handler tests it with
  \<^verbatim>\<open>error instanceof Error\<close> and reads \<^verbatim>\<open>error.message\<close>; nothing else of it
  is inspected. \<open>Other_value\<close> is any thrown value that is not an \<^verbatim>\<open>Error\<close>
  (a thrown \<^verbatim>\<open>Response\<close>, an array of provider errors), named by a label.
\<close>

datatype thrown = Error_instance string | Other_value string

datatype json = JString string | JBool bool | JObject "(string \<times> json) list"

datatype body = Text_body string | Json_body json | Binary_body "byte list"

text \<open>
  A \<^verbatim>\<open>Response\<close>. \<open>headers\<close> holds the headers the source sets itself; the content
  type that the runtime derives from the kind of body is not repeated there.
\<close>

record response =
  status :: nat
  headers :: "(string \<times> string) list"
  body :: body

text \<open>
  Modelled from the spec: the runtime's constructors \<^verbatim>\<open>new Response(text, { status })\<close>
  and \<^verbatim>\<open>Response.json(data, { status })\<close>, which the repository calls and does not
  define. The spec describes the error envelope as a body with the field \<open>error\<close> and a
  status code.
\<close>

definition new_Response :: "string \<Rightarrow> nat \<Rightarrow> response" where
  "new_Response text st = \<lparr>status = st, headers = [], body = Text_body text\<rparr>"

definition Response_json :: "json \<Rightarrow> nat \<Rightarrow> response" where
  "Response_json data st = \<lparr>status = st, headers = [], body = Json_body data\<rparr>"

text \<open>
  What a handler hands back to the router: a \<^verbatim>\<open>Response\<close>, or (the success path of
  the Catalog-Aware handler) a plain object that the router serialises as action data.
\<close>

datatype returned = Http response | Action_data json

text \<open>
  An uploaded \<^verbatim>\<open>File\<close>: its \<^verbatim>\<open>name\<close>, its content, and whether reading it with
  \<^verbatim>\<open>arrayBuffer()\<close> rejects. \<^verbatim>\<open>File.size\<close> is the number of bytes of the content.
\<close>

record upload =
  name :: string
  bytes :: "byte list"
  read_error :: "thrown option"

definition File_size :: "upload \<Rightarrow> nat" where
  "File_size f = length (bytes f)"

text \<open>
  The parsed form: \<^verbatim>\<open>formData.get("image") as File | null\<close> and
  \<^verbatim>\<open>formData.get("imageUrl") as string | null\<close>, with the types the source casts
  them to.
\<close>

record form =
  image :: "upload option"
  imageUrl :: "string option"

text \<open>
  The argument of a provider call, in the order payload, \<^verbatim>\<open>apiKey\<close>, \<^verbatim>\<open>size\<close>,
  \<^verbatim>\<open>type\<close>: \<open>Base64_request\<close> is \<^verbatim>\<open>removeBackgroundFromImageBase64\<close> with its
  \<^verbatim>\<open>base64img\<close>, \<open>Url_request\<close> is \<^verbatim>\<open>removeBackgroundFromImageUrl\<close> with its
  \<^verbatim>\<open>url\<close> (the source passes \<^verbatim>\<open>imageUrl!\<close>, a string or null).
\<close>

datatype gateway_request =
    Base64_request string string string string
  | Url_request "string option" string string string

type_synonym session = string

text \<open>
  The collaborators of one request. \<open>authenticate\<close> is the handler's authentication call
  (\<^verbatim>\<open>authenticate.public.appProxy\<close> for Direct-Upload, \<^verbatim>\<open>authenticate.admin\<close> for
  Catalog-Aware): it throws, or resolves with a session or without one. \<open>provider\<close> gives,
  for each call, the \<^verbatim>\<open>base64img\<close> of the result or the value the call rejects with.
\<close>

record world =
  authenticate :: "thrown + session option"
  formData :: "thrown + form"
  REMOVE_BG_API_KEY :: "string option"
  import_error :: "thrown option"
  provider :: "gateway_request \<Rightarrow> thrown + string"

section \<open>Effects\<close>

text \<open>
  A run of handler code is the list of its interactions with the outside, in order, and
  how it ended: \<open>Inl\<close> a thrown value, \<open>Inr\<close> a result. A provider call is recorded with
  its argument and its outcome.
\<close>

datatype event =
    Authenticate
  | Read_formData
  | Read_arrayBuffer
  | Import_provider
  | Provider_call gateway_request "thrown + string"
  | Console_error string "thrown option"

type_synonym 'a run = "event list \<times> (thrown + 'a)"

definition returns :: "'a \<Rightarrow> 'a run" where
  "returns x = ([], Inr x)"

definition bind :: "'a run \<Rightarrow> ('a \<Rightarrow> 'b run) \<Rightarrow> 'b run" where
  "bind m f =
     (case m of
        (tr, Inl t) \<Rightarrow> (tr, Inl t)
      | (tr, Inr x) \<Rightarrow> (case f x of (tr', r) \<Rightarrow> (tr @ tr', r)))"

definition try_catch :: "'a run \<Rightarrow> (thrown \<Rightarrow> 'a run) \<Rightarrow> 'a run" where
  "try_catch m handler =
     (case m of
        (tr, Inl t) \<Rightarrow> (case handler t of (tr', r) \<Rightarrow> (tr @ tr', r))
      | (tr, Inr x) \<Rightarrow> (tr, Inr x))"

definition await_authenticate :: "world \<Rightarrow> session option run" where
  "await_authenticate w = ([Authenticate], authenticate w)"

definition await_formData :: "world \<Rightarrow> form run" where
  "await_formData w = ([Read_formData], formData w)"

definition await_arrayBuffer :: "upload \<Rightarrow> byte list run" where
  "await_arrayBuffer f =
     ([Read_arrayBuffer], case read_error f of Some t \<Rightarrow> Inl t | None \<Rightarrow> Inr (bytes f))"

definition await_import :: "world \<Rightarrow> unit run" where
  "await_import w =
     ([Import_provider], case import_error w of Some t \<Rightarrow> Inl t | None \<Rightarrow> Inr ())"

definition await_provider :: "world \<Rightarrow> gateway_request \<Rightarrow> string run" where
  "await_provider w rq = ([Provider_call rq (provider w rq)], provider w rq)"

definition console_error :: "string \<Rightarrow> thrown option \<Rightarrow> unit run" where
  "console_error msg t = ([Console_error msg t], Inr ())"

text \<open>The provider calls of a trace, in order: the Gateway was invoked once per element.\<close>

fun gateway_calls :: "event list \<Rightarrow> gateway_request list" where
  "gateway_calls [] = []"
| "gateway_calls (Provider_call rq out # es) = rq # gateway_calls es"
| "gateway_calls (e # es) = gateway_calls es"

text \<open>
  JavaScript truthiness of a value of type \<^verbatim>\<open>string | null | undefined\<close>: the value
  itself when it is a non-empty string, nothing otherwise.
\<close>

definition truthy :: "string option \<Rightarrow> string option" where
  "truthy v = (case v of None \<Rightarrow> None | Some s \<Rightarrow> if s = [] then None else Some s)"

section \<open>The base64 codec of the runtime\<close>

text \<open>
  Modelled from the spec: the base64 codec of the runtime's \<^verbatim>\<open>Buffer\<close>
  (\<^verbatim>\<open>buffer.toString('base64')\<close> and \<^verbatim>\<open>Buffer.from(text, 'base64')\<close>), which the
  handlers call and the repository does not define. The spec names the text encoding as
  base64. The encoder is the standard alphabet with \<open>=\<close> padding, three bytes to four
  characters. The decoder is the runtime's lenient one: a character outside the alphabet
  is skipped, \<open>-\<close> and \<open>_\<close> are read as \<open>+\<close> and \<open>/\<close>, decoding stops at the first
  \<open>=\<close>, and a final group of two or three characters gives one or two bytes.
  \<open>base64_table\<close> and \<open>base64_char\<close> are the encoder's alphabet, \<open>unbase64\<close> is the
  decoder's reading of one character, \<open>sextets\<close> the values of the characters that count and
  \<open>decode_groups\<close> the bytes of those values.
\<close>

definition base64_table :: string where
  "base64_table = ''ABCDEFGHIJKLMNOPQRSTUVWXYZabcdefghijklmnopqrstuvwxyz0123456789+/''"

definition base64_char :: "byte \<Rightarrow> char" where
  "base64_char v = base64_table ! unat v"

text \<open>
  Modelled from the spec: \<^verbatim>\<open>buffer.toString('base64')\<close> of the runtime, absent from the
  repository; the spec's "encode the binary payload as text (base64)".
\<close>

fun Buffer_toString_base64 :: "byte list \<Rightarrow> string" where
  "Buffer_toString_base64 (a # b # c # rest) =
     base64_char (drop_bit 2 a)
     # base64_char (push_bit 4 (a AND 3) OR drop_bit 4 b)
     # base64_char (push_bit 2 (b AND 15) OR drop_bit 6 c)
     # base64_char (c AND 63)
     # Buffer_toString_base64 rest"
| "Buffer_toString_base64 [a, b] =
     [base64_char (drop_bit 2 a),
      base64_char (push_bit 4 (a AND 3) OR drop_bit 4 b),
      base64_char (push_bit 2 (b AND 15)),
      CHR ''='']"
| "Buffer_toString_base64 [a] =
     [base64_char (drop_bit 2 a),
      base64_char (push_bit 4 (a AND 3)),
      CHR ''='', CHR ''='']"
| "Buffer_toString_base64 [] = []"

definition unbase64 :: "char \<Rightarrow> byte option" where
  "unbase64 c =
     (let n = (of_char c :: nat) in
      if 65 \<le> n \<and> n \<le> 90 then Some (of_nat (n - 65))
      else if 97 \<le> n \<and> n \<le> 122 then Some (of_nat (n - 71))
      else if 48 \<le> n \<and> n \<le> 57 then Some (of_nat (n + 4))
      else if c = CHR ''+'' \<or> c = CHR ''-'' then Some 62
      else if c = CHR ''/'' \<or> c = CHR ''_'' then Some 63
      else None)"

fun sextets :: "string \<Rightarrow> byte list" where
  "sextets [] = []"
| "sextets (c # cs) =
     (if c = CHR ''='' then []
      else case unbase64 c of None \<Rightarrow> sextets cs | Some v \<Rightarrow> v # sextets cs)"

fun decode_groups :: "byte list \<Rightarrow> byte list" where
  "decode_groups (s0 # s1 # s2 # s3 # rest) =
     (push_bit 2 (s0 AND 63) OR drop_bit 4 (s1 AND 48))
     # (push_bit 4 (s1 AND 15) OR drop_bit 2 (s2 AND 60))
     # (push_bit 6 (s2 AND 3) OR (s3 AND 63))
     # decode_groups rest"
| "decode_groups [s0, s1, s2] =
     [push_bit 2 (s0 AND 63) OR drop_bit 4 (s1 AND 48),
      push_bit 4 (s1 AND 15) OR drop_bit 2 (s2 AND 60)]"
| "decode_groups [s0, s1] = [push_bit 2 (s0 AND 63) OR drop_bit 4 (s1 AND 48)]"
| "decode_groups _ = []"

text \<open>
  Modelled from the spec: \<^verbatim>\<open>Buffer.from(text, 'base64')\<close> of the runtime, absent from the
  repository; the spec's "decodes the text-encoded bytes back to binary".
\<close>

definition Buffer_from_base64 :: "string \<Rightarrow> byte list" where
  "Buffer_from_base64 s = decode_groups (sextets s)"

text \<open>
  Modelled from the spec: the runtime's \<^verbatim>\<open>toString()\<close> of a number, absent from the
  repository, as used in \<^verbatim>\<open>processedImageBuffer.length.toString()\<close>: the decimal numeral
  of a length (the spec's "content-length header matching the decoded byte count").
  \<open>decimal_value\<close> is the number a decimal numeral denotes, to read the header back.
\<close>

definition digit_char :: "nat \<Rightarrow> char" where
  "digit_char d = ''0123456789'' ! d"

fun Number_toString :: "nat \<Rightarrow> string" where
  "Number_toString n =
     (if n < 10 then [digit_char n]
      else Number_toString (n div 10) @ [digit_char (n mod 10)])"

definition digit_value :: "char \<Rightarrow> nat" where
  "digit_value c = of_char c - 48"

definition decimal_value :: "string \<Rightarrow> nat" where
  "decimal_value s = foldl (\<lambda>acc c. 10 * acc + digit_value c) 0 s"

section \<open>The Direct-Upload handler\<close>

text \<open>
  The body of the \<^verbatim>\<open>try\<close> of lines 24 to 57: the check of the API key, the import of
  the provider's library, the encoding of the upload, the provider call, the decoding of
  its result and the binary response.
\<close>

definition direct_try :: "world \<Rightarrow> byte list \<Rightarrow> returned run" where
  "direct_try w buffer =
     (case truthy (REMOVE_BG_API_KEY w) of
        None \<Rightarrow>
          bind (console_error ''Missing REMOVE_BG_API_KEY environment variable'' None) (\<lambda>_.
          returns (Http (Response_json
            (JObject [(''error'', JString ''Background removal service not configured'')]) 500)))
      | Some apiKey \<Rightarrow>
          bind (await_import w) (\<lambda>_.
          let base64img = Buffer_toString_base64 buffer in
          bind (await_provider w (Base64_request base64img apiKey ''regular'' ''auto'')) (\<lambda>result.
          let processedImageBuffer = Buffer_from_base64 result in
          returns (Http
            \<lparr>status = 200,
             headers = [(''Content-Type'', ''image/png''),
                        (''Content-Length'', Number_toString (length processedImageBuffer))],
             body = Binary_body processedImageBuffer\<rparr>))))"

text \<open>The \<^verbatim>\<open>catch\<close> of lines 58 to 64.\<close>

definition direct_catch :: "thrown \<Rightarrow> returned run" where
  "direct_catch error =
     bind (console_error ''Error from Remove.bg API:'' (Some error)) (\<lambda>_.
     returns (Http (Response_json (JObject [(''error'', JString ''Failed to process image'')]) 500)))"

definition direct_action :: "world \<Rightarrow> returned run" where
  "direct_action w =
     bind (await_authenticate w) (\<lambda>session.
     if session = None then returns (Http (new_Response ''Unauthorized'' 401))
     else
       bind (await_formData w) (\<lambda>fd.
       case image fd of
         None \<Rightarrow>
           returns (Http (Response_json (JObject [(''error'', JString ''No image provided'')]) 400))
       | Some imageFile \<Rightarrow>
           bind (await_arrayBuffer imageFile) (\<lambda>buffer.
           try_catch (direct_try w buffer) direct_catch)))"

section \<open>The Catalog-Aware handler\<close>

text \<open>\<^verbatim>\<open>!imageFile || imageFile.size === 0\<close> of line 152.\<close>

definition no_file :: "upload option \<Rightarrow> bool" where
  "no_file imageFile = (case imageFile of None \<Rightarrow> True | Some f \<Rightarrow> File_size f = 0)"

text \<open>The \<^verbatim>\<open>originalName\<close> of line 192.\<close>

definition originalName :: "upload option \<Rightarrow> string option \<Rightarrow> string" where
  "originalName imageFile url =
     (let fallback = (if truthy url = None then ''Processed Image'' else ''Store Product Image'')
      in case imageFile of
           None \<Rightarrow> fallback
         | Some f \<Rightarrow> if name f = [] then fallback else name f)"

text \<open>Lines 166 to 172: the encoded payload, empty unless a non-empty file was uploaded.\<close>

definition catalog_base64img :: "upload option \<Rightarrow> string run" where
  "catalog_base64img imageFile =
     (case imageFile of
        None \<Rightarrow> returns []
      | Some f \<Rightarrow>
          if 0 < File_size f
          then bind (await_arrayBuffer f) (\<lambda>buffer. returns (Buffer_toString_base64 buffer))
          else returns [])"

text \<open>The body of the \<^verbatim>\<open>try\<close> of lines 156 to 193.\<close>

definition catalog_try :: "world \<Rightarrow> upload option \<Rightarrow> string option \<Rightarrow> returned run" where
  "catalog_try w imageFile url =
     (case truthy (REMOVE_BG_API_KEY w) of
        None \<Rightarrow>
          returns (Http (Response_json
            (JObject [(''error'',
               JString ''Background removal service not configured (missing REMOVE_BG_API_KEY).'')])
            500))
      | Some apiKey \<Rightarrow>
          bind (await_import w) (\<lambda>_.
          bind (catalog_base64img imageFile) (\<lambda>base64img.
          bind (if base64img \<noteq> []
                then await_provider w (Base64_request base64img apiKey ''regular'' ''auto'')
                else await_provider w (Url_request url apiKey ''regular'' ''auto'')) (\<lambda>result.
          returns (Action_data (JObject
            [(''success'', JBool True),
             (''processedImageBase64'', JString result),
             (''originalName'', JString (originalName imageFile url))]))))))"

text \<open>The \<^verbatim>\<open>catch\<close> of lines 194 to 201.\<close>

definition errorMessage :: "thrown \<Rightarrow> string" where
  "errorMessage error =
     (case error of Error_instance message \<Rightarrow> message | Other_value _ \<Rightarrow> ''Unknown error'')"

definition catalog_catch :: "thrown \<Rightarrow> returned run" where
  "catalog_catch error =
     bind (console_error ''Error from Remove.bg API:'' (Some error)) (\<lambda>_.
     returns (Http (Response_json
       (JObject [(''error'', JString (''Failed to process image: '' @ errorMessage error))]) 500)))"

definition catalog_action :: "world \<Rightarrow> returned run" where
  "catalog_action w =
     bind (await_authenticate w) (\<lambda>_.
     bind (await_formData w) (\<lambda>fd.
     if no_file (image fd) \<and> truthy (imageUrl fd) = None
     then returns (Http (Response_json (JObject [(''error'', JString ''No image provided'')]) 400))
     else try_catch (catalog_try w (image fd) (imageUrl fd)) catalog_catch))"

section \<open>Shapes of the responses and example requests\<close>

text \<open>
  The two envelopes the handlers build, and the provider options both handlers pass
  (\<^verbatim>\<open>size: "regular"\<close>, \<^verbatim>\<open>type: "auto"\<close>).
\<close>

abbreviation error_envelope :: "string \<Rightarrow> nat \<Rightarrow> returned" where
  "error_envelope message st \<equiv> Http (Response_json (JObject [(''error'', JString message)]) st)"

abbreviation success_envelope :: "string \<Rightarrow> string \<Rightarrow> returned" where
  "success_envelope result nm \<equiv>
     Action_data (JObject [(''success'', JBool True),
                           (''processedImageBase64'', JString result),
                           (''originalName'', JString nm)])"

abbreviation regular_auto_base64 :: "string \<Rightarrow> string \<Rightarrow> gateway_request" where
  "regular_auto_base64 base64img apiKey \<equiv> Base64_request base64img apiKey ''regular'' ''auto''"

abbreviation regular_auto_url :: "string option \<Rightarrow> string \<Rightarrow> gateway_request" where
  "regular_auto_url u apiKey \<equiv> Url_request u apiKey ''regular'' ''auto''"

text \<open>
  Concrete requests, for evaluating the handlers: a three-byte upload named
  \<^verbatim>\<open>shirt.jpg\<close> sent with a valid session and a configured key to a provider that
  resolves with the text \<^verbatim>\<open>iVBORw==\<close>; an empty upload with a name; a non-empty upload
  with the empty name; and the part a browser sends for a file input left unselected (empty
  name, no bytes).
\<close>

definition example_upload :: upload where
  "example_upload = \<lparr>name = ''shirt.jpg'', bytes = [255, 216, 255], read_error = None\<rparr>"

definition example_world :: world where
  "example_world =
     \<lparr>authenticate = Inr (Some ''shop-session''),
      formData = Inr \<lparr>image = Some example_upload, imageUrl = None\<rparr>,
      REMOVE_BG_API_KEY = Some ''key'',
      import_error = None,
      provider = (\<lambda>rq. Inr ''iVBORw=='')\<rparr>"

definition blank_upload :: upload where
  "blank_upload = \<lparr>name = ''blank.png'', bytes = [], read_error = None\<rparr>"

definition unnamed_upload :: upload where
  "unnamed_upload = \<lparr>name = [], bytes = [255, 216, 255], read_error = None\<rparr>"

definition unselected_upload :: upload where
  "unselected_upload = \<lparr>name = [], bytes = [], read_error = None\<rparr>"

text \<open>The equation of \<open>Number_toString\<close> is applied by hand, never by the simplifier.\<close>

declare Number_toString.simps [simp del]

section \<open>The codec: encoding then decoding\<close>

text \<open>
  Every character the encoder emits for a value below 64 is read back by the decoder's
  table as that value, and is never the padding character.
\<close>

lemma unbase64_table:
  "map unbase64 base64_table = map (\<lambda>n. Some (of_nat n)) [0..<64]"
  by (simp add: upt_rec base64_table_def unbase64_def)

lemma length_base64_table: "length base64_table = 64"
  by (simp add: base64_table_def)

lemma unbase64_base64_char:
  assumes "v < 64"
  shows "unbase64 (base64_char v) = Some v"
proof -
  have n: "unat v < 64"
    using assms by (simp add: word_less_nat_alt)
  then have "unbase64 (base64_table ! unat v) = map unbase64 base64_table ! unat v"
    by (simp add: length_base64_table)
  also have "\<dots> = Some (of_nat (unat v))"
    unfolding unbase64_table using n by simp
  finally show ?thesis
    by (simp add: base64_char_def)
qed

lemma base64_char_not_pad:
  assumes "v < 64"
  shows "base64_char v \<noteq> CHR ''=''"
proof
  assume "base64_char v = CHR ''=''"
  then have "unbase64 (base64_char v) = None"
    by (simp add: unbase64_def)
  with unbase64_base64_char [OF assms] show False
    by simp
qed

lemma sextets_base64_char:
  "v < 64 \<Longrightarrow> sextets (base64_char v # cs) = v # sextets cs"
  by (simp add: unbase64_base64_char base64_char_not_pad)

lemma sextets_pad: "sextets (CHR ''='' # cs) = []"
  by simp

lemma byte_index_cases:
  assumes "n < LENGTH(8)"
  obtains "n = 0" | "n = 1" | "n = 2" | "n = 3" | "n = 4" | "n = 5" | "n = 6" | "n = (7::nat)"
  using assms by (simp, linarith)

lemma sextet_bound:
  fixes v :: byte
  assumes "take_bit 6 v = v"
  shows "v < 64"
proof -
  have "v AND mask 6 = v"
    using assms by (simp add: take_bit_eq_mask)
  then have "v < 2 ^ 6"
    by (simp add: mask_eq_iff_w2p word_size)
  then show ?thesis by simp
qed

lemma sextet1: "drop_bit 2 (a::byte) < 64"
proof (rule sextet_bound, rule bit_word_eqI)
  fix n assume "n < LENGTH(8)"
  then show "bit (take_bit 6 (drop_bit 2 a)) n = bit (drop_bit 2 a) n"
    by (cases n rule: byte_index_cases) (auto simp add: bit_simps dest: bit_imp_le_length)
qed

lemma sextet2: "push_bit 4 (a AND 3) OR drop_bit 4 (b::byte) < 64"
proof (rule sextet_bound, rule bit_word_eqI)
  fix n assume "n < LENGTH(8)"
  then show "bit (take_bit 6 (push_bit 4 (a AND 3) OR drop_bit 4 b)) n
      = bit (push_bit 4 (a AND 3) OR drop_bit 4 b) n"
    by (cases n rule: byte_index_cases) (auto simp add: bit_simps dest: bit_imp_le_length)
qed

lemma sextet3: "push_bit 2 (b AND 15) OR drop_bit 6 (c::byte) < 64"
proof (rule sextet_bound, rule bit_word_eqI)
  fix n assume "n < LENGTH(8)"
  then show "bit (take_bit 6 (push_bit 2 (b AND 15) OR drop_bit 6 c)) n
      = bit (push_bit 2 (b AND 15) OR drop_bit 6 c) n"
    by (cases n rule: byte_index_cases) (auto simp add: bit_simps dest: bit_imp_le_length)
qed

lemma sextet4: "(c::byte) AND 63 < 64"
proof (rule sextet_bound, rule bit_word_eqI)
  fix n assume "n < LENGTH(8)"
  then show "bit (take_bit 6 (c AND 63)) n = bit (c AND 63) n"
    by (cases n rule: byte_index_cases) (auto simp add: bit_simps dest: bit_imp_le_length)
qed

lemma sextet2_pad: "push_bit 4 ((a::byte) AND 3) < 64"
  using sextet2 [of a 0] by simp

lemma sextet3_pad: "push_bit 2 ((b::byte) AND 15) < 64"
  using sextet3 [of b 0] by simp

lemma byte1:
  "push_bit 2 (drop_bit 2 a AND 63) OR drop_bit 4 ((push_bit 4 (a AND 3) OR drop_bit 4 b) AND 48)
     = (a::byte)"
proof (rule bit_word_eqI)
  fix n assume "n < LENGTH(8)"
  then show "bit (push_bit 2 (drop_bit 2 a AND 63)
      OR drop_bit 4 ((push_bit 4 (a AND 3) OR drop_bit 4 b) AND 48)) n = bit a n"
    by (cases n rule: byte_index_cases) (simp_all add: bit_simps)
qed

lemma byte2:
  "push_bit 4 ((push_bit 4 (a AND 3) OR drop_bit 4 b) AND 15)
     OR drop_bit 2 ((push_bit 2 (b AND 15) OR drop_bit 6 c) AND 60) = (b::byte)"
proof (rule bit_word_eqI)
  fix n assume "n < LENGTH(8)"
  then show "bit (push_bit 4 ((push_bit 4 (a AND 3) OR drop_bit 4 b) AND 15)
      OR drop_bit 2 ((push_bit 2 (b AND 15) OR drop_bit 6 c) AND 60)) n = bit b n"
    by (cases n rule: byte_index_cases) (simp_all add: bit_simps)
qed

lemma byte3:
  "push_bit 6 ((push_bit 2 (b AND 15) OR drop_bit 6 c) AND 3) OR ((c AND 63) AND 63) = (c::byte)"
proof (rule bit_word_eqI)
  fix n assume "n < LENGTH(8)"
  then show "bit (push_bit 6 ((push_bit 2 (b AND 15) OR drop_bit 6 c) AND 3)
      OR ((c AND 63) AND 63)) n = bit c n"
    by (cases n rule: byte_index_cases) (simp_all add: bit_simps)
qed

lemma byte1_pad:
  "push_bit 2 (drop_bit 2 a AND 63) OR drop_bit 4 (push_bit 4 (a AND 3) AND 48) = (a::byte)"
  using byte1 [of a 0] by simp

lemma byte2_pad:
  "push_bit 4 ((push_bit 4 (a AND 3) OR drop_bit 4 b) AND 15)
     OR drop_bit 2 (push_bit 2 (b AND 15) AND 60) = (b::byte)"
  using byte2 [of a b 0] by simp

lemma decode_encode:
  "decode_groups (sextets (Buffer_toString_base64 bs)) = bs"
proof (induction bs rule: Buffer_toString_base64.induct)
  case (1 a b c rest)
  then show ?case
    by (simp only: Buffer_toString_base64.simps decode_groups.simps
        sextets_base64_char [OF sextet1] sextets_base64_char [OF sextet2]
        sextets_base64_char [OF sextet3] sextets_base64_char [OF sextet4]
        byte1 byte2 byte3)
next
  case (2 a b)
  then show ?case
    by (simp only: Buffer_toString_base64.simps decode_groups.simps sextets_pad
        sextets_base64_char [OF sextet1] sextets_base64_char [OF sextet2]
        sextets_base64_char [OF sextet3_pad] byte1 byte2_pad)
next
  case (3 a)
  then show ?case
    by (simp only: Buffer_toString_base64.simps decode_groups.simps sextets_pad
        sextets_base64_char [OF sextet1] sextets_base64_char [OF sextet2_pad]
        byte1_pad)
next
  case 4
  then show ?case by simp
qed

section \<open>Decimal numerals\<close>

text \<open>The decimal numeral of a number denotes that number.\<close>

lemma digit_value_digit_char:
  assumes "d < 10"
  shows "digit_value (digit_char d) = d"
proof -
  from assms consider "d = 0" | "d = 1" | "d = 2" | "d = 3" | "d = 4" | "d = 5"
    | "d = 6" | "d = 7" | "d = 8" | "d = 9"
    by atomize_elim arith
  then show ?thesis
    by cases (simp_all add: digit_value_def digit_char_def)
qed

lemma decimal_value_snoc:
  "decimal_value (s @ [c]) = 10 * decimal_value s + digit_value c"
  by (simp add: decimal_value_def)

lemma decimal_value_Number_toString:
  "decimal_value (Number_toString n) = n"
proof (induction n rule: Number_toString.induct)
  case (1 n)
  show ?case
  proof (cases "n < 10")
    case True
    then show ?thesis
      by (simp add: Number_toString.simps [of n] decimal_value_def digit_value_digit_char)
  next
    case False
    with 1 show ?thesis
      by (simp add: Number_toString.simps [of n] decimal_value_snoc digit_value_digit_char)
  qed
qed

section \<open>Runs\<close>

text \<open>How sequencing and \<^verbatim>\<open>try\<close>/\<^verbatim>\<open>catch\<close> act on a run that threw or returned.\<close>

lemma bind_throw: "bind (tr, Inl t) f = (tr, Inl t)"
  by (simp add: bind_def)

lemma bind_value: "bind (tr, Inr x) f = (tr @ fst (f x), snd (f x))"
  by (simp add: bind_def split: prod.splits)

lemma try_catch_throw: "try_catch (tr, Inl t) h = (tr @ fst (h t), snd (h t))"
  by (simp add: try_catch_def split: prod.splits)

lemma try_catch_value: "try_catch (tr, Inr x) h = (tr, Inr x)"
  by (simp add: try_catch_def)

lemmas run_simps =
  bind_throw bind_value try_catch_throw try_catch_value returns_def
  await_authenticate_def await_formData_def await_arrayBuffer_def await_import_def
  await_provider_def console_error_def Let_def

lemma encode_nonempty: "bs \<noteq> [] \<Longrightarrow> Buffer_toString_base64 bs \<noteq> []"
  by (induction bs rule: Buffer_toString_base64.induct) simp_all

lemma truthy_None: "truthy v = None \<longleftrightarrow> v = None \<or> v = Some []"
  by (simp add: truthy_def split: option.splits)

lemma truthy_Some: "truthy v = Some s \<longleftrightarrow> v = Some s \<and> s \<noteq> []"
  by (auto simp add: truthy_def split: option.splits)

section \<open>The paths of the Direct-Upload handler\<close>

text \<open>
  One lemma per path through the handler, giving the whole run, and a case rule saying that
  every request takes exactly one of them.
\<close>

lemma direct_auth_throws:
  assumes "authenticate w = Inl t"
  shows "direct_action w = ([Authenticate], Inl t)"
  using assms by (simp add: direct_action_def run_simps)

lemma direct_no_session:
  assumes "authenticate w = Inr None"
  shows "direct_action w = ([Authenticate], Inr (Http (new_Response ''Unauthorized'' 401)))"
  using assms by (simp add: direct_action_def run_simps)

lemma direct_form_throws:
  assumes "authenticate w = Inr (Some s)" "formData w = Inl t"
  shows "direct_action w = ([Authenticate, Read_formData], Inl t)"
  using assms by (simp add: direct_action_def run_simps)

lemma direct_no_image:
  assumes "authenticate w = Inr (Some s)" "formData w = Inr fd" "image fd = None"
  shows "direct_action w
    = ([Authenticate, Read_formData], Inr (error_envelope ''No image provided'' 400))"
  using assms by (simp add: direct_action_def run_simps)

lemma direct_read_throws:
  assumes "authenticate w = Inr (Some s)" "formData w = Inr fd" "image fd = Some f"
    "read_error f = Some t"
  shows "direct_action w = ([Authenticate, Read_formData, Read_arrayBuffer], Inl t)"
  using assms by (simp add: direct_action_def run_simps)

lemma direct_no_key:
  assumes "authenticate w = Inr (Some s)" "formData w = Inr fd" "image fd = Some f"
    "read_error f = None" "truthy (REMOVE_BG_API_KEY w) = None"
  shows "direct_action w
    = ([Authenticate, Read_formData, Read_arrayBuffer,
        Console_error ''Missing REMOVE_BG_API_KEY environment variable'' None],
       Inr (error_envelope ''Background removal service not configured'' 500))"
  using assms by (simp add: direct_action_def direct_try_def run_simps)

lemma direct_import_throws:
  assumes "authenticate w = Inr (Some s)" "formData w = Inr fd" "image fd = Some f"
    "read_error f = None" "truthy (REMOVE_BG_API_KEY w) = Some k" "import_error w = Some t"
  shows "direct_action w
    = ([Authenticate, Read_formData, Read_arrayBuffer, Import_provider,
        Console_error ''Error from Remove.bg API:'' (Some t)],
       Inr (error_envelope ''Failed to process image'' 500))"
  using assms by (simp add: direct_action_def direct_try_def direct_catch_def run_simps)

lemma direct_provider_rejects:
  assumes "authenticate w = Inr (Some s)" "formData w = Inr fd" "image fd = Some f"
    "read_error f = None" "truthy (REMOVE_BG_API_KEY w) = Some k" "import_error w = None"
    "provider w (regular_auto_base64 (Buffer_toString_base64 (bytes f)) k) = Inl t"
  shows "direct_action w
    = ([Authenticate, Read_formData, Read_arrayBuffer, Import_provider,
        Provider_call (regular_auto_base64 (Buffer_toString_base64 (bytes f)) k) (Inl t),
        Console_error ''Error from Remove.bg API:'' (Some t)],
       Inr (error_envelope ''Failed to process image'' 500))"
  using assms by (simp add: direct_action_def direct_try_def direct_catch_def run_simps)

lemma direct_provider_resolves:
  assumes "authenticate w = Inr (Some s)" "formData w = Inr fd" "image fd = Some f"
    "read_error f = None" "truthy (REMOVE_BG_API_KEY w) = Some k" "import_error w = None"
    "provider w (regular_auto_base64 (Buffer_toString_base64 (bytes f)) k) = Inr result"
  shows "direct_action w
    = ([Authenticate, Read_formData, Read_arrayBuffer, Import_provider,
        Provider_call (regular_auto_base64 (Buffer_toString_base64 (bytes f)) k) (Inr result)],
       Inr (Http
         \<lparr>status = 200,
          headers = [(''Content-Type'', ''image/png''),
                     (''Content-Length'', Number_toString (length (Buffer_from_base64 result)))],
          body = Binary_body (Buffer_from_base64 result)\<rparr>))"
  using assms by (simp add: direct_action_def direct_try_def run_simps)

lemma direct_paths [case_names auth_throws no_session form_throws no_image read_throws
    no_key import_throws provider_rejects provider_resolves]:
  obtains t where "authenticate w = Inl t"
  | "authenticate w = Inr None"
  | s t where "authenticate w = Inr (Some s)" "formData w = Inl t"
  | s fd where "authenticate w = Inr (Some s)" "formData w = Inr fd" "image fd = None"
  | s fd f t where "authenticate w = Inr (Some s)" "formData w = Inr fd" "image fd = Some f"
      "read_error f = Some t"
  | s fd f where "authenticate w = Inr (Some s)" "formData w = Inr fd" "image fd = Some f"
      "read_error f = None" "truthy (REMOVE_BG_API_KEY w) = None"
  | s fd f k t where "authenticate w = Inr (Some s)" "formData w = Inr fd" "image fd = Some f"
      "read_error f = None" "truthy (REMOVE_BG_API_KEY w) = Some k" "import_error w = Some t"
  | s fd f k t where "authenticate w = Inr (Some s)" "formData w = Inr fd" "image fd = Some f"
      "read_error f = None" "truthy (REMOVE_BG_API_KEY w) = Some k" "import_error w = None"
      "provider w (regular_auto_base64 (Buffer_toString_base64 (bytes f)) k) = Inl t"
  | s fd f k result where "authenticate w = Inr (Some s)" "formData w = Inr fd"
      "image fd = Some f" "read_error f = None" "truthy (REMOVE_BG_API_KEY w) = Some k"
      "import_error w = None"
      "provider w (regular_auto_base64 (Buffer_toString_base64 (bytes f)) k) = Inr result"
proof (cases "authenticate w")
  case (Inl t)
  then show ?thesis using that(1) by blast
next
  case auth: (Inr so)
  show ?thesis
  proof (cases so)
    case None
    with auth show ?thesis using that(2) by blast
  next
    case (Some s)
    with auth have a: "authenticate w = Inr (Some s)" by simp
    show ?thesis
    proof (cases "formData w")
      case (Inl t)
      with a show ?thesis using that(3) by blast
    next
      case fd: (Inr fd)
      show ?thesis
      proof (cases "image fd")
        case None
        with a fd show ?thesis using that(4) by blast
      next
        case f: (Some f)
        show ?thesis
        proof (cases "read_error f")
          case (Some t)
          with a fd f show ?thesis using that(5) by blast
        next
          case r: None
          show ?thesis
          proof (cases "truthy (REMOVE_BG_API_KEY w)")
            case None
            with a fd f r show ?thesis using that(6) by blast
          next
            case k: (Some k)
            show ?thesis
            proof (cases "import_error w")
              case (Some t)
              with a fd f r k show ?thesis using that(7) by blast
            next
              case i: None
              show ?thesis
              proof (cases "provider w (regular_auto_base64 (Buffer_toString_base64 (bytes f)) k)")
                case (Inl t)
                with a fd f r k i show ?thesis using that(8) by blast
              next
                case (Inr result)
                with a fd f r k i show ?thesis using that(9) by blast
              qed
            qed
          qed
        qed
      qed
    qed
  qed
qed

lemmas direct_runs =
  direct_auth_throws direct_no_session direct_form_throws direct_no_image direct_read_throws
  direct_no_key direct_import_throws direct_provider_rejects direct_provider_resolves

section \<open>The paths of the Catalog-Aware handler\<close>

lemma catalog_base64img_no_file:
  assumes "no_file imageFile"
  shows "catalog_base64img imageFile = ([], Inr [])"
proof (cases imageFile)
  case None
  then show ?thesis
    by (simp add: catalog_base64img_def run_simps)
next
  case (Some f)
  with assms have "File_size f = 0"
    by (simp add: no_file_def)
  with Some show ?thesis
    by (simp add: catalog_base64img_def run_simps)
qed

lemma catalog_base64img_read_throws:
  assumes "0 < File_size f" "read_error f = Some t"
  shows "catalog_base64img (Some f) = ([Read_arrayBuffer], Inl t)"
  using assms by (simp add: catalog_base64img_def run_simps)

lemma catalog_base64img_file:
  assumes "0 < File_size f" "read_error f = None"
  shows "catalog_base64img (Some f) = ([Read_arrayBuffer], Inr (Buffer_toString_base64 (bytes f)))"
  using assms by (simp add: catalog_base64img_def run_simps)

lemma encode_upload_nonempty:
  assumes "0 < File_size f"
  shows "Buffer_toString_base64 (bytes f) \<noteq> []"
  using assms by (simp add: File_size_def encode_nonempty)

lemma validation_passes_file:
  assumes "image fd = Some f" "0 < File_size f"
  shows "\<not> no_file (image fd)"
  using assms by (simp add: no_file_def)

lemma catalog_auth_throws:
  assumes "authenticate w = Inl t"
  shows "catalog_action w = ([Authenticate], Inl t)"
  using assms by (simp add: catalog_action_def run_simps)

lemma catalog_form_throws:
  assumes "authenticate w = Inr s" "formData w = Inl t"
  shows "catalog_action w = ([Authenticate, Read_formData], Inl t)"
  using assms by (simp add: catalog_action_def run_simps)

lemma catalog_no_image:
  assumes "authenticate w = Inr s" "formData w = Inr fd"
    "no_file (image fd)" "truthy (imageUrl fd) = None"
  shows "catalog_action w
    = ([Authenticate, Read_formData], Inr (error_envelope ''No image provided'' 400))"
  using assms by (simp add: catalog_action_def run_simps)

lemma catalog_no_key:
  assumes "authenticate w = Inr s" "formData w = Inr fd"
    "\<not> (no_file (image fd) \<and> truthy (imageUrl fd) = None)"
    "truthy (REMOVE_BG_API_KEY w) = None"
  shows "catalog_action w
    = ([Authenticate, Read_formData],
       Inr (error_envelope
         ''Background removal service not configured (missing REMOVE_BG_API_KEY).'' 500))"
  using assms(1,2,4)
  by (simp add: catalog_action_def catalog_try_def run_simps if_not_P [OF assms(3)])

lemma catalog_import_throws:
  assumes "authenticate w = Inr s" "formData w = Inr fd"
    "\<not> (no_file (image fd) \<and> truthy (imageUrl fd) = None)"
    "truthy (REMOVE_BG_API_KEY w) = Some k" "import_error w = Some t"
  shows "catalog_action w
    = ([Authenticate, Read_formData, Import_provider,
        Console_error ''Error from Remove.bg API:'' (Some t)],
       Inr (error_envelope (''Failed to process image: '' @ errorMessage t) 500))"
  using assms(1,2,4,5)
  by (simp add: catalog_action_def catalog_try_def catalog_catch_def run_simps
      if_not_P [OF assms(3)])

lemma catalog_read_throws:
  assumes "authenticate w = Inr s" "formData w = Inr fd"
    "image fd = Some f" "0 < File_size f"
    "truthy (REMOVE_BG_API_KEY w) = Some k" "import_error w = None" "read_error f = Some t"
  shows "catalog_action w
    = ([Authenticate, Read_formData, Import_provider, Read_arrayBuffer,
        Console_error ''Error from Remove.bg API:'' (Some t)],
       Inr (error_envelope (''Failed to process image: '' @ errorMessage t) 500))"
  using assms validation_passes_file [OF assms(3,4)]
  by (simp add: catalog_action_def catalog_try_def catalog_catch_def
      catalog_base64img_read_throws run_simps)

lemma catalog_base64_rejects:
  assumes "authenticate w = Inr s" "formData w = Inr fd"
    "image fd = Some f" "0 < File_size f"
    "truthy (REMOVE_BG_API_KEY w) = Some k" "import_error w = None" "read_error f = None"
    "provider w (regular_auto_base64 (Buffer_toString_base64 (bytes f)) k) = Inl t"
  shows "catalog_action w
    = ([Authenticate, Read_formData, Import_provider, Read_arrayBuffer,
        Provider_call (regular_auto_base64 (Buffer_toString_base64 (bytes f)) k) (Inl t),
        Console_error ''Error from Remove.bg API:'' (Some t)],
       Inr (error_envelope (''Failed to process image: '' @ errorMessage t) 500))"
  using assms validation_passes_file [OF assms(3,4)] encode_upload_nonempty [OF assms(4)]
  by (simp add: catalog_action_def catalog_try_def catalog_catch_def
      catalog_base64img_file run_simps)

lemma catalog_base64_resolves:
  assumes "authenticate w = Inr s" "formData w = Inr fd"
    "image fd = Some f" "0 < File_size f"
    "truthy (REMOVE_BG_API_KEY w) = Some k" "import_error w = None" "read_error f = None"
    "provider w (regular_auto_base64 (Buffer_toString_base64 (bytes f)) k) = Inr result"
  shows "catalog_action w
    = ([Authenticate, Read_formData, Import_provider, Read_arrayBuffer,
        Provider_call (regular_auto_base64 (Buffer_toString_base64 (bytes f)) k) (Inr result)],
       Inr (success_envelope result (originalName (image fd) (imageUrl fd))))"
  using assms validation_passes_file [OF assms(3,4)] encode_upload_nonempty [OF assms(4)]
  by (simp add: catalog_action_def catalog_try_def catalog_base64img_file run_simps)

lemma catalog_url_rejects:
  assumes "authenticate w = Inr s" "formData w = Inr fd"
    "no_file (image fd)" "truthy (imageUrl fd) = Some u"
    "truthy (REMOVE_BG_API_KEY w) = Some k" "import_error w = None"
    "provider w (regular_auto_url (imageUrl fd) k) = Inl t"
  shows "catalog_action w
    = ([Authenticate, Read_formData, Import_provider,
        Provider_call (regular_auto_url (imageUrl fd) k) (Inl t),
        Console_error ''Error from Remove.bg API:'' (Some t)],
       Inr (error_envelope (''Failed to process image: '' @ errorMessage t) 500))"
  using assms
  by (simp add: catalog_action_def catalog_try_def catalog_catch_def
      catalog_base64img_no_file run_simps)

lemma catalog_url_resolves:
  assumes "authenticate w = Inr s" "formData w = Inr fd"
    "no_file (image fd)" "truthy (imageUrl fd) = Some u"
    "truthy (REMOVE_BG_API_KEY w) = Some k" "import_error w = None"
    "provider w (regular_auto_url (imageUrl fd) k) = Inr result"
  shows "catalog_action w
    = ([Authenticate, Read_formData, Import_provider,
        Provider_call (regular_auto_url (imageUrl fd) k) (Inr result)],
       Inr (success_envelope result (originalName (image fd) (imageUrl fd))))"
  using assms
  by (simp add: catalog_action_def catalog_try_def catalog_base64img_no_file run_simps)

lemma source_cases [case_names no_image upload link]:
  obtains "no_file imageFile" "truthy u = None"
  | f where "imageFile = Some f" "0 < File_size f"
  | v where "no_file imageFile" "truthy u = Some v"
proof (cases "no_file imageFile")
  case True
  then show ?thesis
    using that(1,3) by (cases "truthy u") blast+
next
  case False
  then obtain f where "imageFile = Some f" "0 < File_size f"
    by (auto simp add: no_file_def split: option.splits)
  then show ?thesis
    using that(2) by blast
qed

lemma catalog_paths [case_names auth_throws form_throws no_image no_key import_throws
    read_throws base64_rejects base64_resolves url_rejects url_resolves]:
  obtains t where "authenticate w = Inl t"
  | s t where "authenticate w = Inr s" "formData w = Inl t"
  | s fd where "authenticate w = Inr s" "formData w = Inr fd"
      "no_file (image fd)" "truthy (imageUrl fd) = None"
  | s fd where "authenticate w = Inr s" "formData w = Inr fd"
      "\<not> (no_file (image fd) \<and> truthy (imageUrl fd) = None)"
      "truthy (REMOVE_BG_API_KEY w) = None"
  | s fd k t where "authenticate w = Inr s" "formData w = Inr fd"
      "\<not> (no_file (image fd) \<and> truthy (imageUrl fd) = None)"
      "truthy (REMOVE_BG_API_KEY w) = Some k" "import_error w = Some t"
  | s fd f k t where "authenticate w = Inr s" "formData w = Inr fd"
      "image fd = Some f" "0 < File_size f"
      "truthy (REMOVE_BG_API_KEY w) = Some k" "import_error w = None" "read_error f = Some t"
  | s fd f k t where "authenticate w = Inr s" "formData w = Inr fd"
      "image fd = Some f" "0 < File_size f"
      "truthy (REMOVE_BG_API_KEY w) = Some k" "import_error w = None" "read_error f = None"
      "provider w (regular_auto_base64 (Buffer_toString_base64 (bytes f)) k) = Inl t"
  | s fd f k result where "authenticate w = Inr s" "formData w = Inr fd"
      "image fd = Some f" "0 < File_size f"
      "truthy (REMOVE_BG_API_KEY w) = Some k" "import_error w = None" "read_error f = None"
      "provider w (regular_auto_base64 (Buffer_toString_base64 (bytes f)) k) = Inr result"
  | s fd u k t where "authenticate w = Inr s" "formData w = Inr fd"
      "no_file (image fd)" "truthy (imageUrl fd) = Some u"
      "truthy (REMOVE_BG_API_KEY w) = Some k" "import_error w = None"
      "provider w (regular_auto_url (imageUrl fd) k) = Inl t"
  | s fd u k result where "authenticate w = Inr s" "formData w = Inr fd"
      "no_file (image fd)" "truthy (imageUrl fd) = Some u"
      "truthy (REMOVE_BG_API_KEY w) = Some k" "import_error w = None"
      "provider w (regular_auto_url (imageUrl fd) k) = Inr result"
proof (cases "authenticate w")
  case (Inl t)
  then show ?thesis using that(1) by blast
next
  case a: (Inr s)
  show ?thesis
  proof (cases "formData w")
    case (Inl t)
    with a show ?thesis using that(2) by blast
  next
    case fd: (Inr fd)
    show ?thesis
    proof (cases "image fd" "imageUrl fd" rule: source_cases)
      case no_image
      with a fd show ?thesis using that(3) by blast
    next
      case src: (upload f)
      then have v: "\<not> (no_file (image fd) \<and> truthy (imageUrl fd) = None)"
        by (simp add: no_file_def)
      show ?thesis
      proof (cases "truthy (REMOVE_BG_API_KEY w)")
        case None
        with a fd v show ?thesis using that(4) by blast
      next
        case k: (Some k)
        show ?thesis
        proof (cases "import_error w")
          case (Some t)
          with a fd v k show ?thesis using that(5) by blast
        next
          case i: None
          show ?thesis
          proof (cases "read_error f")
            case (Some t)
            with a fd src k i show ?thesis using that(6) by blast
          next
            case r: None
            show ?thesis
            proof (cases "provider w (regular_auto_base64 (Buffer_toString_base64 (bytes f)) k)")
              case (Inl t)
              with a fd src k i r show ?thesis using that(7) by blast
            next
              case (Inr result)
              with a fd src k i r show ?thesis using that(8) by blast
            qed
          qed
        qed
      qed
    next
      case src: (link u)
      then have v: "\<not> (no_file (image fd) \<and> truthy (imageUrl fd) = None)"
        by simp
      show ?thesis
      proof (cases "truthy (REMOVE_BG_API_KEY w)")
        case None
        with a fd v show ?thesis using that(4) by blast
      next
        case k: (Some k)
        show ?thesis
        proof (cases "import_error w")
          case (Some t)
          with a fd v k show ?thesis using that(5) by blast
        next
          case i: None
          show ?thesis
          proof (cases "provider w (regular_auto_url (imageUrl fd) k)")
            case (Inl t)
            with a fd src k i show ?thesis using that(9) by blast
          next
            case (Inr result)
            with a fd src k i show ?thesis using that(10) by blast
          qed
        qed
      qed
    qed
  qed
qed

lemmas catalog_runs =
  catalog_auth_throws catalog_form_throws catalog_no_image catalog_no_key
  catalog_import_throws catalog_read_throws catalog_base64_rejects catalog_base64_resolves
  catalog_url_rejects catalog_url_resolves

section \<open>Evaluating the examples\<close>

lemmas eval_defs =
  direct_action_def direct_try_def direct_catch_def
  catalog_action_def catalog_try_def catalog_catch_def catalog_base64img_def
  run_simps example_world_def example_upload_def blank_upload_def unnamed_upload_def
  unselected_upload_def truthy_def File_size_def no_file_def originalName_def errorMessage_def
  base64_char_def base64_table_def

lemma example_request: "Buffer_toString_base64 [255, 216, 255] = ''/9j/''"
  by (simp add: base64_char_def base64_table_def)

lemma example_result: "Buffer_from_base64 ''iVBORw=='' = [137, 80, 78, 71]"
  by (simp add: Buffer_from_base64_def unbase64_def)

section \<open>The claims\<close>

text \<open>
  In the statements below, a provider call that appears in the trace of a run with the
  outcome \<open>Inl t\<close> is a Gateway call that raised \<open>t\<close>, one with the outcome \<open>Inr result\<close>
  is a Gateway call that succeeded, and \<open>gateway_calls\<close> of a trace is empty exactly when the
  Gateway was never invoked.
\<close>

subsection \<open>C1: a failing Gateway call\<close>

text \<open>
  C1, amended: whenever the provider call rejects, both handlers return status 500 with an
  envelope that holds one field, \<open>error\<close>. In the Catalog-Aware handler it is
  \<^verbatim>\<open>"Failed to process image: "\<close> followed by the message of the thrown value when that
  value is an \<^verbatim>\<open>Error\<close>, and by \<^verbatim>\<open>"Unknown error"\<close> otherwise. In the Direct-Upload
  handler it is exactly \<^verbatim>\<open>"Failed to process image"\<close>, with no message. The body holds
  nothing else of the thrown value.
\<close>

theorem provider_error_envelope:
  "(Provider_call rq (Inl t) \<in> set (fst (catalog_action w)) \<longrightarrow>
      snd (catalog_action w)
        = Inr (error_envelope (''Failed to process image: '' @ errorMessage t) 500))
   \<and> (Provider_call rq' (Inl t') \<in> set (fst (direct_action w')) \<longrightarrow>
      snd (direct_action w') = Inr (error_envelope ''Failed to process image'' 500))
   \<and> errorMessage (Error_instance message) = message
   \<and> errorMessage (Other_value v) = ''Unknown error''"
proof -
  have "snd (catalog_action w)
      = Inr (error_envelope (''Failed to process image: '' @ errorMessage t) 500)"
    if "Provider_call rq (Inl t) \<in> set (fst (catalog_action w))"
    using that by (cases w rule: catalog_paths) (simp_all add: catalog_runs)
  moreover have "snd (direct_action w') = Inr (error_envelope ''Failed to process image'' 500)"
    if "Provider_call rq' (Inl t') \<in> set (fst (direct_action w'))"
    using that by (cases w' rule: direct_paths) (simp_all add: direct_runs)
  ultimately show ?thesis
    by (simp add: errorMessage_def)
qed

text \<open>
  The theorem at work: the provider rejects a Catalog-Aware request with an \<^verbatim>\<open>Error\<close>
  whose message is \<^verbatim>\<open>quota exceeded\<close>, and a Direct-Upload request with a value that is
  not an \<^verbatim>\<open>Error\<close>.
\<close>

theorem provider_error_envelope_witness:
  "Provider_call (regular_auto_base64 ''/9j/'' ''key'') (Inl (Error_instance ''quota exceeded''))
     \<in> set (fst (catalog_action
          (example_world\<lparr>provider := \<lambda>rq. Inl (Error_instance ''quota exceeded'')\<rparr>)))
   \<and> snd (catalog_action
          (example_world\<lparr>provider := \<lambda>rq. Inl (Error_instance ''quota exceeded'')\<rparr>))
       = Inr (error_envelope ''Failed to process image: quota exceeded'' 500)
   \<and> Provider_call (regular_auto_base64 ''/9j/'' ''key'') (Inl (Other_value ''errors''))
     \<in> set (fst (direct_action
          (example_world\<lparr>provider := \<lambda>rq. Inl (Other_value ''errors'')\<rparr>)))
   \<and> snd (direct_action (example_world\<lparr>provider := \<lambda>rq. Inl (Other_value ''errors'')\<rparr>))
       = Inr (error_envelope ''Failed to process image'' 500)"
proof -
  let ?w = "example_world\<lparr>provider := \<lambda>rq. Inl (Error_instance ''quota exceeded'')\<rparr>"
  let ?w' = "example_world\<lparr>provider := \<lambda>rq. Inl (Other_value ''errors'')\<rparr>"
  let ?rq = "regular_auto_base64 ''/9j/'' ''key''"
  have h: "Provider_call ?rq (Inl (Error_instance ''quota exceeded''))
      \<in> set (fst (catalog_action ?w))"
    by (simp add: eval_defs)
  have h': "Provider_call ?rq (Inl (Other_value ''errors'')) \<in> set (fst (direct_action ?w'))"
    by (simp add: eval_defs)
  from provider_error_envelope
    [of ?rq "Error_instance ''quota exceeded''" ?w ?rq "Other_value ''errors''" ?w'
      "''quota exceeded''"] h h'
  show ?thesis
    by simp
qed

text \<open>
  The claim as stated fails in the Direct-Upload handler: the provider rejects with the
  message \<^verbatim>\<open>quota exceeded\<close> and the envelope does not carry it.
\<close>

theorem direct_error_message_counterexample:
  "Provider_call (regular_auto_base64 ''/9j/'' ''key'') (Inl (Error_instance ''quota exceeded''))
     \<in> set (fst (direct_action
          (example_world\<lparr>provider := \<lambda>rq. Inl (Error_instance ''quota exceeded'')\<rparr>)))
   \<and> snd (direct_action
          (example_world\<lparr>provider := \<lambda>rq. Inl (Error_instance ''quota exceeded'')\<rparr>))
       = Inr (error_envelope ''Failed to process image'' 500)
   \<and> snd (direct_action
          (example_world\<lparr>provider := \<lambda>rq. Inl (Error_instance ''quota exceeded'')\<rparr>))
       \<noteq> Inr (error_envelope ''Failed to process image: quota exceeded'' 500)"
  by (simp add: eval_defs Response_json_def)

subsection \<open>C2: no image\<close>

text \<open>
  C2, at the input where the Direct-Upload handler departs from it: the \<^verbatim>\<open>image\<close> part
  is a file of zero bytes. Whatever the provider answers (\<open>p\<close>), the handler calls it once,
  with the empty payload, and its response is not the 400 envelope. The Catalog-Aware handler
  does answer 400 there, without a provider call (lemma \<open>catalog_no_image\<close>), and so does
  the Direct-Upload handler when the part is absent (lemma \<open>direct_no_image\<close>).
\<close>

theorem direct_empty_file_reaches_provider:
  "gateway_calls (fst (direct_action
      (example_world\<lparr>formData := Inr \<lparr>image = Some blank_upload, imageUrl = None\<rparr>,
                      provider := p\<rparr>)))
     = [regular_auto_base64 [] ''key'']
   \<and> snd (direct_action
      (example_world\<lparr>formData := Inr \<lparr>image = Some blank_upload, imageUrl = None\<rparr>,
                      provider := p\<rparr>))
     \<noteq> Inr (error_envelope ''No image provided'' 400)"
proof (cases "p (regular_auto_base64 [] ''key'')")
  case (Inl t)
  then show ?thesis
    by (simp add: eval_defs Response_json_def)
next
  case (Inr result)
  then show ?thesis
    by (simp add: eval_defs Response_json_def)
qed

subsection \<open>C3: no API key\<close>

text \<open>
  C3, amended: when the API key is absent or empty, neither handler invokes the provider,
  whatever the request. A request that passed authentication and validation (and, for
  Direct-Upload, whose file was read) is answered with status 500; the message of the
  Catalog-Aware handler is
  \<^verbatim>\<open>"Background removal service not configured (missing REMOVE_BG_API_KEY)."\<close> and that
  of the Direct-Upload handler is \<^verbatim>\<open>"Background removal service not configured"\<close>.
\<close>

theorem missing_key_responses:
  assumes "REMOVE_BG_API_KEY w = None \<or> REMOVE_BG_API_KEY w = Some []"
  shows "gateway_calls (fst (catalog_action w)) = []
     \<and> gateway_calls (fst (direct_action w)) = []
     \<and> (authenticate w = Inr s \<and> formData w = Inr fd
          \<and> \<not> (no_file (image fd) \<and> truthy (imageUrl fd) = None) \<longrightarrow>
        snd (catalog_action w) = Inr (error_envelope
          ''Background removal service not configured (missing REMOVE_BG_API_KEY).'' 500))
     \<and> (authenticate w = Inr (Some s') \<and> formData w = Inr fd' \<and> image fd' = Some f
          \<and> read_error f = None \<longrightarrow>
        snd (direct_action w)
          = Inr (error_envelope ''Background removal service not configured'' 500))"
proof -
  from assms have k: "truthy (REMOVE_BG_API_KEY w) = None"
    by (simp add: truthy_None)
  have "gateway_calls (fst (catalog_action w)) = []"
    using k by (cases w rule: catalog_paths) (simp_all add: catalog_runs)
  moreover have "gateway_calls (fst (direct_action w)) = []"
    using k by (cases w rule: direct_paths) (simp_all add: direct_runs)
  moreover have "snd (catalog_action w) = Inr (error_envelope
      ''Background removal service not configured (missing REMOVE_BG_API_KEY).'' 500)"
    if "authenticate w = Inr s" "formData w = Inr fd"
      "\<not> (no_file (image fd) \<and> truthy (imageUrl fd) = None)"
    using catalog_no_key [OF that k] by simp
  moreover have "snd (direct_action w)
      = Inr (error_envelope ''Background removal service not configured'' 500)"
    if "authenticate w = Inr (Some s')" "formData w = Inr fd'" "image fd' = Some f"
      "read_error f = None"
    using direct_no_key [OF that k] by simp
  ultimately show ?thesis
    by blast
qed

text \<open>
  The theorem at work: the example request with the key set to the empty string.
\<close>

theorem missing_key_responses_witness:
  "(REMOVE_BG_API_KEY (example_world\<lparr>REMOVE_BG_API_KEY := Some []\<rparr>) = None
      \<or> REMOVE_BG_API_KEY (example_world\<lparr>REMOVE_BG_API_KEY := Some []\<rparr>) = Some [])
   \<and> gateway_calls (fst (catalog_action (example_world\<lparr>REMOVE_BG_API_KEY := Some []\<rparr>))) = []
   \<and> gateway_calls (fst (direct_action (example_world\<lparr>REMOVE_BG_API_KEY := Some []\<rparr>))) = []
   \<and> snd (catalog_action (example_world\<lparr>REMOVE_BG_API_KEY := Some []\<rparr>))
       = Inr (error_envelope
           ''Background removal service not configured (missing REMOVE_BG_API_KEY).'' 500)
   \<and> snd (direct_action (example_world\<lparr>REMOVE_BG_API_KEY := Some []\<rparr>))
       = Inr (error_envelope ''Background removal service not configured'' 500)"
proof -
  let ?w = "example_world\<lparr>REMOVE_BG_API_KEY := Some []\<rparr>"
  let ?fd = "\<lparr>image = Some example_upload, imageUrl = None\<rparr>"
  have k: "REMOVE_BG_API_KEY ?w = None \<or> REMOVE_BG_API_KEY ?w = Some []"
    by simp
  have a: "authenticate ?w = Inr (Some ''shop-session'')" and f: "formData ?w = Inr ?fd"
    by (simp_all add: example_world_def)
  have v: "\<not> (no_file (image ?fd) \<and> truthy (imageUrl ?fd) = None)"
    by (simp add: no_file_def File_size_def example_upload_def)
  have r: "image ?fd = Some example_upload" "read_error example_upload = None"
    by (simp_all add: example_upload_def)
  from missing_key_responses
    [OF k, of "Some ''shop-session''" ?fd "''shop-session''" ?fd example_upload] a f v r k
  show ?thesis
    by simp
qed

text \<open>
  The claim as stated fails on the text of the Catalog-Aware message: the source names the
  environment variable in it.
\<close>

theorem catalog_missing_key_message_counterexample:
  "snd (catalog_action (example_world\<lparr>REMOVE_BG_API_KEY := None\<rparr>))
     = Inr (error_envelope
         ''Background removal service not configured (missing REMOVE_BG_API_KEY).'' 500)
   \<and> snd (catalog_action (example_world\<lparr>REMOVE_BG_API_KEY := None\<rparr>))
     \<noteq> Inr (error_envelope
         ''Background removal service not configured (missing API key).'' 500)"
  by (simp add: eval_defs Response_json_def)

subsection \<open>C4: authentication\<close>

text \<open>
  C4, amended: the Direct-Upload handler answers 401 \<^verbatim>\<open>Unauthorized\<close> when its
  authentication resolves without a session, before it reads the body and without a provider
  call. When the authentication call throws, either handler stops there, before it reads the
  body and without a provider call, and what reaches the caller is the thrown value. The
  Catalog-Aware handler builds no 401 of its own: every response it builds has status 400 or
  500.
\<close>

theorem authentication_gate:
  "(authenticate w = Inr None \<longrightarrow>
      direct_action w = ([Authenticate], Inr (Http (new_Response ''Unauthorized'' 401))))
   \<and> (authenticate w' = Inl t \<longrightarrow>
      direct_action w' = ([Authenticate], Inl t) \<and> catalog_action w' = ([Authenticate], Inl t))
   \<and> (snd (catalog_action w'') = Inr (Http r) \<longrightarrow> status r = 400 \<or> status r = 500)"
proof -
  have "status r = 400 \<or> status r = 500" if "snd (catalog_action w'') = Inr (Http r)"
    using that
    by (cases w'' rule: catalog_paths) (auto simp add: catalog_runs Response_json_def)
  then show ?thesis
    by (simp add: direct_no_session direct_auth_throws catalog_auth_throws)
qed

text \<open>
  The theorem at work: a request whose authentication resolves without a session, one whose
  authentication throws a redirect, and the response of the Catalog-Aware handler to a
  request made without an API key.
\<close>

theorem authentication_gate_witness:
  "authenticate (example_world\<lparr>authenticate := Inr None\<rparr>) = Inr None
   \<and> direct_action (example_world\<lparr>authenticate := Inr None\<rparr>)
       = ([Authenticate], Inr (Http \<lparr>status = 401, headers = [], body = Text_body ''Unauthorized''\<rparr>))
   \<and> authenticate (example_world\<lparr>authenticate := Inl (Other_value ''Response 302'')\<rparr>)
       = Inl (Other_value ''Response 302'')
   \<and> direct_action (example_world\<lparr>authenticate := Inl (Other_value ''Response 302'')\<rparr>)
       = ([Authenticate], Inl (Other_value ''Response 302''))
   \<and> catalog_action (example_world\<lparr>authenticate := Inl (Other_value ''Response 302'')\<rparr>)
       = ([Authenticate], Inl (Other_value ''Response 302''))
   \<and> snd (catalog_action (example_world\<lparr>REMOVE_BG_API_KEY := None\<rparr>))
       = Inr (error_envelope
           ''Background removal service not configured (missing REMOVE_BG_API_KEY).'' 500)
   \<and> status (Response_json (JObject [(''error'',
         JString ''Background removal service not configured (missing REMOVE_BG_API_KEY).'')])
       500) = 500"
proof -
  let ?w = "example_world\<lparr>authenticate := Inr None\<rparr>"
  let ?w' = "example_world\<lparr>authenticate := Inl (Other_value ''Response 302'')\<rparr>"
  let ?w'' = "example_world\<lparr>REMOVE_BG_API_KEY := None\<rparr>"
  let ?r = "Response_json (JObject [(''error'',
      JString ''Background removal service not configured (missing REMOVE_BG_API_KEY).'')]) 500"
  have a: "authenticate ?w = Inr None" and a': "authenticate ?w' = Inl (Other_value ''Response 302'')"
    by simp_all
  have c: "snd (catalog_action ?w'') = Inr (Http ?r)"
    by (simp add: eval_defs)
  from authentication_gate [of ?w ?w' "Other_value ''Response 302''" ?w'' ?r] a a' c
  show ?thesis
    by (simp add: new_Response_def Response_json_def)
qed

text \<open>
  The claim as stated fails in the Catalog-Aware handler when \<^verbatim>\<open>authenticate.admin\<close>
  refuses the caller by throwing: the handler returns nothing, 401 or other, and the caller
  receives what was thrown, here a redirect.
\<close>

theorem catalog_authentication_throws_counterexample:
  "authenticate (example_world\<lparr>authenticate := Inl (Other_value ''login redirect'')\<rparr>)
     = Inl (Other_value ''login redirect'')
   \<and> catalog_action (example_world\<lparr>authenticate := Inl (Other_value ''login redirect'')\<rparr>)
     = ([Authenticate], Inl (Other_value ''login redirect''))
   \<and> snd (catalog_action (example_world\<lparr>authenticate := Inl (Other_value ''login redirect'')\<rparr>))
     \<noteq> Inr (Http (new_Response ''Unauthorized'' 401))"
  by (simp add: eval_defs)

subsection \<open>C5: a file and a URL\<close>

text \<open>
  C5, amended: for every Catalog-Aware request with a non-empty \<^verbatim>\<open>image\<close> file, with or
  without an \<^verbatim>\<open>imageUrl\<close>, the provider is never called with the URL variant; when the
  request is authenticated, the key is configured, the import succeeds and the file is read,
  the provider is called exactly once, with the base64 text of the file's bytes.
\<close>

theorem catalog_file_precedence:
  assumes "formData w = Inr fd" "image fd = Some f" "0 < File_size f"
  shows "Url_request u k sz ty \<notin> set (gateway_calls (fst (catalog_action w)))
     \<and> (authenticate w = Inr s \<and> REMOVE_BG_API_KEY w = Some apiKey \<and> apiKey \<noteq> []
          \<and> import_error w = None \<and> read_error f = None \<longrightarrow>
        gateway_calls (fst (catalog_action w))
          = [regular_auto_base64 (Buffer_toString_base64 (bytes f)) apiKey])"
proof -
  have v: "\<not> no_file (image fd)"
    using assms(2,3) by (rule validation_passes_file)
  have "Url_request u k sz ty \<notin> set (gateway_calls (fst (catalog_action w)))"
    using assms v by (cases w rule: catalog_paths) (auto simp add: catalog_runs)
  moreover have "gateway_calls (fst (catalog_action w))
      = [regular_auto_base64 (Buffer_toString_base64 (bytes f)) apiKey]"
    if "authenticate w = Inr s" "REMOVE_BG_API_KEY w = Some apiKey" "apiKey \<noteq> []"
      "import_error w = None" "read_error f = None"
  proof -
    from that(2,3) have key: "truthy (REMOVE_BG_API_KEY w) = Some apiKey"
      by (simp add: truthy_Some)
    show ?thesis
    proof (cases "provider w (regular_auto_base64 (Buffer_toString_base64 (bytes f)) apiKey)")
      case (Inl t)
      from catalog_base64_rejects [OF that(1) assms key that(4,5) Inl] show ?thesis
        by simp
    next
      case (Inr result)
      from catalog_base64_resolves [OF that(1) assms key that(4,5) Inr] show ?thesis
        by simp
    qed
  qed
  ultimately show ?thesis
    by blast
qed

text \<open>
  The theorem at work: the three-byte upload sent together with a URL.
\<close>

theorem catalog_file_precedence_witness:
  "formData (example_world\<lparr>formData :=
       Inr \<lparr>image = Some example_upload, imageUrl = Some ''https://store/img.jpg''\<rparr>\<rparr>)
     = Inr \<lparr>image = Some example_upload, imageUrl = Some ''https://store/img.jpg''\<rparr>
   \<and> 0 < File_size example_upload
   \<and> Url_request (Some ''https://store/img.jpg'') ''key'' ''regular'' ''auto''
       \<notin> set (gateway_calls (fst (catalog_action (example_world\<lparr>formData :=
           Inr \<lparr>image = Some example_upload, imageUrl = Some ''https://store/img.jpg''\<rparr>\<rparr>))))
   \<and> gateway_calls (fst (catalog_action (example_world\<lparr>formData :=
           Inr \<lparr>image = Some example_upload, imageUrl = Some ''https://store/img.jpg''\<rparr>\<rparr>)))
     = [regular_auto_base64 ''/9j/'' ''key'']"
proof -
  let ?fd = "\<lparr>image = Some example_upload, imageUrl = Some ''https://store/img.jpg''\<rparr>"
  let ?w = "example_world\<lparr>formData := Inr ?fd\<rparr>"
  have f: "formData ?w = Inr ?fd" and i: "image ?fd = Some example_upload"
    and z: "0 < File_size example_upload"
    by (simp_all add: File_size_def example_upload_def)
  have p: "authenticate ?w = Inr (Some ''shop-session'')" "REMOVE_BG_API_KEY ?w = Some ''key''"
    "import_error ?w = None" "read_error example_upload = None"
    by (simp_all add: example_world_def example_upload_def)
  have b: "bytes example_upload = [255, 216, 255]"
    by (simp add: example_upload_def)
  from catalog_file_precedence
    [OF f i z, of "Some ''https://store/img.jpg''" "''key''" "''regular''" "''auto''"
      "Some ''shop-session''" "''key''"] p f z
  show ?thesis
    unfolding b example_request by simp
qed

text \<open>
  The claim as stated fails when the file that is present is empty: the provider is called
  with the URL variant.
\<close>

theorem catalog_empty_file_url_counterexample:
  "image \<lparr>image = Some blank_upload, imageUrl = Some ''https://store/img.jpg''\<rparr>
     = Some blank_upload
   \<and> gateway_calls (fst (catalog_action (example_world\<lparr>formData :=
         Inr \<lparr>image = Some blank_upload, imageUrl = Some ''https://store/img.jpg''\<rparr>\<rparr>)))
     = [regular_auto_url (Some ''https://store/img.jpg'') ''key'']"
  by (simp add: eval_defs)

subsection \<open>C6: the response of the Direct-Upload handler\<close>

text \<open>
  C6: whenever the provider call of a Direct-Upload request resolves, the handler returns a
  binary body equal to the base64 decoding of the provider's text, with
  \<^verbatim>\<open>Content-Type: image/png\<close> and a \<^verbatim>\<open>Content-Length\<close> that is the decimal numeral of
  the number of decoded bytes.
\<close>

theorem direct_success_response:
  assumes "Provider_call rq (Inr result) \<in> set (fst (direct_action w))"
  shows "snd (direct_action w) = Inr (Http
           \<lparr>status = 200,
            headers = [(''Content-Type'', ''image/png''),
                       (''Content-Length'', Number_toString (length (Buffer_from_base64 result)))],
            body = Binary_body (Buffer_from_base64 result)\<rparr>)
       \<and> decimal_value (Number_toString (length (Buffer_from_base64 result)))
           = length (Buffer_from_base64 result)"
  using assms
  by (cases w rule: direct_paths) (simp_all add: direct_runs decimal_value_Number_toString)

text \<open>
  The theorem at work: the body of the example request is the four bytes the provider's text
  decodes to.
\<close>

theorem direct_success_response_witness:
  "Provider_call (regular_auto_base64 ''/9j/'' ''key'') (Inr ''iVBORw=='')
     \<in> set (fst (direct_action example_world))
   \<and> snd (direct_action example_world) = Inr (Http
        \<lparr>status = 200,
         headers = [(''Content-Type'', ''image/png''), (''Content-Length'', ''4'')],
         body = Binary_body [137, 80, 78, 71]\<rparr>)
   \<and> decimal_value ''4'' = 4"
proof -
  have h: "Provider_call (regular_auto_base64 ''/9j/'' ''key'') (Inr ''iVBORw=='')
      \<in> set (fst (direct_action example_world))"
    by (simp add: eval_defs)
  have l: "length (Buffer_from_base64 ''iVBORw=='') = 4"
    by (simp add: example_result)
  have n: "Number_toString 4 = ''4''"
    by (simp add: Number_toString.simps digit_char_def)
  from direct_success_response [OF h, unfolded l n] h show ?thesis
    by (simp add: example_result)
qed

subsection \<open>C7: the success envelope of the Catalog-Aware handler\<close>

text \<open>
  C7, amended: whenever the provider call of a Catalog-Aware request resolves, the handler
  returns the object with \<^verbatim>\<open>success: true\<close>, \<^verbatim>\<open>processedImageBase64\<close> the provider's
  text as it came, and \<^verbatim>\<open>originalName\<close>: the name of the uploaded file when a file with a
  non-empty name was supplied; \<^verbatim>\<open>"Store Product Image"\<close> when no file was supplied; and,
  when the supplied file has the empty name, \<^verbatim>\<open>"Store Product Image"\<close> if a non-empty URL
  came with it and \<^verbatim>\<open>"Processed Image"\<close> if not.
\<close>

theorem catalog_success_envelope:
  "(Provider_call rq (Inr result) \<in> set (fst (catalog_action w)) \<and> formData w = Inr fd
      \<and> image fd = Some f \<and> name f \<noteq> [] \<longrightarrow>
      snd (catalog_action w) = Inr (success_envelope result (name f)))
   \<and> (Provider_call rq' (Inr result') \<in> set (fst (catalog_action w')) \<and> formData w' = Inr fd'
      \<and> image fd' = None \<longrightarrow>
      snd (catalog_action w') = Inr (success_envelope result' ''Store Product Image''))
   \<and> (Provider_call rq'' (Inr result'') \<in> set (fst (catalog_action w''))
      \<and> formData w'' = Inr fd'' \<and> image fd'' = Some f'' \<and> name f'' = [] \<longrightarrow>
      snd (catalog_action w'') = Inr (success_envelope result''
        (if imageUrl fd'' = None \<or> imageUrl fd'' = Some [] then ''Processed Image''
         else ''Store Product Image'')))"
proof -
  have envelope: "snd (catalog_action w)
      = Inr (success_envelope result (originalName (image fd) (imageUrl fd)))
      \<and> \<not> (no_file (image fd) \<and> truthy (imageUrl fd) = None)"
    if "Provider_call rq (Inr result) \<in> set (fst (catalog_action w))" "formData w = Inr fd"
    for rq result w fd
    using that by (cases w rule: catalog_paths) (auto simp add: catalog_runs no_file_def)
  have "snd (catalog_action w) = Inr (success_envelope result (name f))"
    if "Provider_call rq (Inr result) \<in> set (fst (catalog_action w))" "formData w = Inr fd"
      "image fd = Some f" "name f \<noteq> []"
    using envelope [OF that(1,2)] that(3,4) by (simp add: originalName_def)
  moreover have "snd (catalog_action w') = Inr (success_envelope result' ''Store Product Image'')"
    if "Provider_call rq' (Inr result') \<in> set (fst (catalog_action w'))" "formData w' = Inr fd'"
      "image fd' = None"
    using envelope [OF that(1,2)] that(3) by (simp add: originalName_def no_file_def)
  moreover have "snd (catalog_action w'') = Inr (success_envelope result''
      (if imageUrl fd'' = None \<or> imageUrl fd'' = Some [] then ''Processed Image''
       else ''Store Product Image''))"
    if "Provider_call rq'' (Inr result'') \<in> set (fst (catalog_action w''))"
      "formData w'' = Inr fd''" "image fd'' = Some f''" "name f'' = []"
    using envelope [OF that(1,2)] that(3,4) by (simp add: originalName_def truthy_None)
  ultimately show ?thesis
    by blast
qed

text \<open>
  The theorem at work: a named upload, a URL alone, and an upload with the empty name.
\<close>

theorem catalog_success_envelope_witness:
  "Provider_call (regular_auto_base64 ''/9j/'' ''key'') (Inr ''iVBORw=='')
     \<in> set (fst (catalog_action example_world))
   \<and> name example_upload \<noteq> []
   \<and> snd (catalog_action example_world) = Inr (success_envelope ''iVBORw=='' ''shirt.jpg'')
   \<and> Provider_call (regular_auto_url (Some ''https://store/img.jpg'') ''key'') (Inr ''iVBORw=='')
     \<in> set (fst (catalog_action (example_world\<lparr>formData :=
           Inr \<lparr>image = None, imageUrl = Some ''https://store/img.jpg''\<rparr>\<rparr>)))
   \<and> snd (catalog_action (example_world\<lparr>formData :=
           Inr \<lparr>image = None, imageUrl = Some ''https://store/img.jpg''\<rparr>\<rparr>))
     = Inr (success_envelope ''iVBORw=='' ''Store Product Image'')
   \<and> Provider_call (regular_auto_base64 ''/9j/'' ''key'') (Inr ''iVBORw=='')
     \<in> set (fst (catalog_action (example_world\<lparr>formData :=
           Inr \<lparr>image = Some unnamed_upload, imageUrl = Some []\<rparr>\<rparr>)))
   \<and> name unnamed_upload = []
   \<and> snd (catalog_action (example_world\<lparr>formData :=
           Inr \<lparr>image = Some unnamed_upload, imageUrl = Some []\<rparr>\<rparr>))
     = Inr (success_envelope ''iVBORw=='' ''Processed Image'')"
proof -
  let ?fd = "\<lparr>image = Some example_upload, imageUrl = None\<rparr>"
  let ?fd' = "\<lparr>image = None, imageUrl = Some ''https://store/img.jpg''\<rparr>"
  let ?fd'' = "\<lparr>image = Some unnamed_upload, imageUrl = Some []\<rparr>"
  let ?w' = "example_world\<lparr>formData := Inr ?fd'\<rparr>"
  let ?w'' = "example_world\<lparr>formData := Inr ?fd''\<rparr>"
  let ?rq = "regular_auto_base64 ''/9j/'' ''key''"
  let ?rq' = "regular_auto_url (Some ''https://store/img.jpg'') ''key''"
  have h: "Provider_call ?rq (Inr ''iVBORw=='') \<in> set (fst (catalog_action example_world))"
    and h': "Provider_call ?rq' (Inr ''iVBORw=='') \<in> set (fst (catalog_action ?w'))"
    and h'': "Provider_call ?rq (Inr ''iVBORw=='') \<in> set (fst (catalog_action ?w''))"
    by (simp_all add: eval_defs)
  have f: "formData example_world = Inr ?fd" "formData ?w' = Inr ?fd'" "formData ?w'' = Inr ?fd''"
    by (simp_all add: example_world_def)
  have n: "name example_upload = ''shirt.jpg''" "name unnamed_upload = []"
    by (simp_all add: example_upload_def unnamed_upload_def)
  from catalog_success_envelope
    [of ?rq "''iVBORw==''" example_world ?fd example_upload
        ?rq' "''iVBORw==''" ?w' ?fd'
        ?rq "''iVBORw==''" ?w'' ?fd'' unnamed_upload] h h' h'' f n
  show ?thesis
    by simp
qed

text \<open>
  The claim as stated fails for an uploaded file whose name is empty: the name returned is
  not the file's.
\<close>

theorem catalog_unnamed_file_counterexample:
  "image \<lparr>image = Some unnamed_upload, imageUrl = None\<rparr> = Some unnamed_upload
   \<and> name unnamed_upload = []
   \<and> snd (catalog_action (example_world\<lparr>formData :=
         Inr \<lparr>image = Some unnamed_upload, imageUrl = None\<rparr>\<rparr>))
     = Inr (success_envelope ''iVBORw=='' ''Processed Image'')"
  by (simp add: eval_defs)

subsection \<open>C8: the round trip of the codec\<close>

text \<open>
  C8: for every byte sequence, the empty one included, encoding it to base64 text with
  \<^verbatim>\<open>toString('base64')\<close> and decoding that text with \<^verbatim>\<open>Buffer.from(text, 'base64')\<close>
  gives the same bytes back.
\<close>

theorem base64_round_trip:
  "Buffer_from_base64 (Buffer_toString_base64 bs) = bs"
  by (simp add: Buffer_from_base64_def decode_encode)

subsection \<open>C9: exceptions that escape\<close>

text \<open>
  C9, amended: an exception leaves the Direct-Upload handler exactly when it is thrown by
  the authentication call, by the parsing of the form, or by the reading of the file; it
  leaves the Catalog-Aware handler exactly when it is thrown by the authentication call or
  by the parsing of the form. Every failure inside the \<^verbatim>\<open>try\<close> is converted into the
  handler's 500 envelope: in the Direct-Upload handler a failing import of the provider's
  library and a rejecting provider call; in the Catalog-Aware handler a failing import, a
  failing read of the file, and a rejecting provider call of either variant. Every response
  the Direct-Upload handler builds has status 200, 400, 401 or 500, and every response the
  Catalog-Aware handler builds has status 400 or 500.
\<close>

theorem escaping_exceptions:
  "(snd (direct_action w) = Inl t \<longleftrightarrow>
      authenticate w = Inl t
      \<or> (\<exists>s. authenticate w = Inr (Some s))
        \<and> (formData w = Inl t
           \<or> (\<exists>fd f. formData w = Inr fd \<and> image fd = Some f \<and> read_error f = Some t)))
   \<and> (snd (catalog_action w) = Inl t \<longleftrightarrow>
      authenticate w = Inl t \<or> (\<exists>s. authenticate w = Inr s) \<and> formData w = Inl t)
   \<and> (authenticate wi = Inr (Some si) \<and> formData wi = Inr fdi \<and> image fdi = Some fi
      \<and> read_error fi = None \<and> REMOVE_BG_API_KEY wi = Some ki \<and> ki \<noteq> []
      \<and> import_error wi = Some ei \<longrightarrow>
      snd (direct_action wi) = Inr (error_envelope ''Failed to process image'' 500))
   \<and> (authenticate wp = Inr (Some sp) \<and> formData wp = Inr fdp \<and> image fdp = Some fp
      \<and> read_error fp = None \<and> REMOVE_BG_API_KEY wp = Some kp \<and> kp \<noteq> []
      \<and> import_error wp = None
      \<and> provider wp (regular_auto_base64 (Buffer_toString_base64 (bytes fp)) kp) = Inl ep
      \<longrightarrow>
      snd (direct_action wp) = Inr (error_envelope ''Failed to process image'' 500))
   \<and> (authenticate ci = Inr ai \<and> formData ci = Inr gi
      \<and> \<not> (no_file (image gi) \<and> truthy (imageUrl gi) = None)
      \<and> REMOVE_BG_API_KEY ci = Some li \<and> li \<noteq> [] \<and> import_error ci = Some xi \<longrightarrow>
      snd (catalog_action ci)
        = Inr (error_envelope (''Failed to process image: '' @ errorMessage xi) 500))
   \<and> (authenticate cr = Inr ar \<and> formData cr = Inr gr \<and> image gr = Some fr
      \<and> 0 < File_size fr \<and> REMOVE_BG_API_KEY cr = Some lr \<and> lr \<noteq> []
      \<and> import_error cr = None \<and> read_error fr = Some xr \<longrightarrow>
      snd (catalog_action cr)
        = Inr (error_envelope (''Failed to process image: '' @ errorMessage xr) 500))
   \<and> (authenticate cb = Inr ab \<and> formData cb = Inr gb \<and> image gb = Some fb
      \<and> 0 < File_size fb \<and> REMOVE_BG_API_KEY cb = Some lb \<and> lb \<noteq> []
      \<and> import_error cb = None \<and> read_error fb = None
      \<and> provider cb (regular_auto_base64 (Buffer_toString_base64 (bytes fb)) lb) = Inl xb
      \<longrightarrow>
      snd (catalog_action cb)
        = Inr (error_envelope (''Failed to process image: '' @ errorMessage xb) 500))
   \<and> (authenticate cu = Inr au \<and> formData cu = Inr gu \<and> no_file (image gu)
      \<and> imageUrl gu = Some u \<and> u \<noteq> [] \<and> REMOVE_BG_API_KEY cu = Some lu \<and> lu \<noteq> []
      \<and> import_error cu = None \<and> provider cu (regular_auto_url (Some u) lu) = Inl xu
      \<longrightarrow>
      snd (catalog_action cu)
        = Inr (error_envelope (''Failed to process image: '' @ errorMessage xu) 500))
   \<and> (snd (direct_action w') = Inr (Http r) \<longrightarrow> status r \<in> {200, 400, 401, 500})
   \<and> (snd (catalog_action w') = Inr (Http r') \<longrightarrow> status r' \<in> {400, 500})"
proof -
  have f1: "snd (direct_action w) = Inl t \<longleftrightarrow>
      authenticate w = Inl t
      \<or> (\<exists>s. authenticate w = Inr (Some s))
        \<and> (formData w = Inl t
           \<or> (\<exists>fd f. formData w = Inr fd \<and> image fd = Some f \<and> read_error f = Some t))"
    by (cases w rule: direct_paths) (simp_all add: direct_runs)
  have f2: "snd (catalog_action w) = Inl t \<longleftrightarrow>
      authenticate w = Inl t \<or> (\<exists>s. authenticate w = Inr s) \<and> formData w = Inl t"
    by (cases w rule: catalog_paths) (simp_all add: catalog_runs)
  have g3: "snd (direct_action wi) = Inr (error_envelope ''Failed to process image'' 500)"
    if "authenticate wi = Inr (Some si)" "formData wi = Inr fdi" "image fdi = Some fi"
      "read_error fi = None" "REMOVE_BG_API_KEY wi = Some ki" "ki \<noteq> []"
      "import_error wi = Some ei"
  proof -
    from that(5,6) have "truthy (REMOVE_BG_API_KEY wi) = Some ki"
      by (simp add: truthy_Some)
    from direct_import_throws [OF that(1-4) this that(7)] show ?thesis
      by simp
  qed
  have g4: "snd (direct_action wp) = Inr (error_envelope ''Failed to process image'' 500)"
    if "authenticate wp = Inr (Some sp)" "formData wp = Inr fdp" "image fdp = Some fp"
      "read_error fp = None" "REMOVE_BG_API_KEY wp = Some kp" "kp \<noteq> []"
      "import_error wp = None"
      "provider wp (regular_auto_base64 (Buffer_toString_base64 (bytes fp)) kp) = Inl ep"
  proof -
    from that(5,6) have "truthy (REMOVE_BG_API_KEY wp) = Some kp"
      by (simp add: truthy_Some)
    from direct_provider_rejects [OF that(1-4) this that(7,8)] show ?thesis
      by simp
  qed
  have g5: "snd (catalog_action ci)
      = Inr (error_envelope (''Failed to process image: '' @ errorMessage xi) 500)"
    if "authenticate ci = Inr ai" "formData ci = Inr gi"
      "\<not> (no_file (image gi) \<and> truthy (imageUrl gi) = None)"
      "REMOVE_BG_API_KEY ci = Some li" "li \<noteq> []" "import_error ci = Some xi"
  proof -
    from that(4,5) have "truthy (REMOVE_BG_API_KEY ci) = Some li"
      by (simp add: truthy_Some)
    from catalog_import_throws [OF that(1-3) this that(6)] show ?thesis
      by simp
  qed
  have g6: "snd (catalog_action cr)
      = Inr (error_envelope (''Failed to process image: '' @ errorMessage xr) 500)"
    if "authenticate cr = Inr ar" "formData cr = Inr gr" "image gr = Some fr"
      "0 < File_size fr" "REMOVE_BG_API_KEY cr = Some lr" "lr \<noteq> []"
      "import_error cr = None" "read_error fr = Some xr"
  proof -
    from that(5,6) have "truthy (REMOVE_BG_API_KEY cr) = Some lr"
      by (simp add: truthy_Some)
    from catalog_read_throws [OF that(1-4) this that(7,8)] show ?thesis
      by simp
  qed
  have g7: "snd (catalog_action cb)
      = Inr (error_envelope (''Failed to process image: '' @ errorMessage xb) 500)"
    if "authenticate cb = Inr ab" "formData cb = Inr gb" "image gb = Some fb"
      "0 < File_size fb" "REMOVE_BG_API_KEY cb = Some lb" "lb \<noteq> []"
      "import_error cb = None" "read_error fb = None"
      "provider cb (regular_auto_base64 (Buffer_toString_base64 (bytes fb)) lb) = Inl xb"
  proof -
    from that(5,6) have "truthy (REMOVE_BG_API_KEY cb) = Some lb"
      by (simp add: truthy_Some)
    from catalog_base64_rejects [OF that(1-4) this that(7-9)] show ?thesis
      by simp
  qed
  have g8: "snd (catalog_action cu)
      = Inr (error_envelope (''Failed to process image: '' @ errorMessage xu) 500)"
    if "authenticate cu = Inr au" "formData cu = Inr gu" "no_file (image gu)"
      "imageUrl gu = Some u" "u \<noteq> []" "REMOVE_BG_API_KEY cu = Some lu" "lu \<noteq> []"
      "import_error cu = None" "provider cu (regular_auto_url (Some u) lu) = Inl xu"
  proof -
    from that(6,7) have k: "truthy (REMOVE_BG_API_KEY cu) = Some lu"
      by (simp add: truthy_Some)
    from that(4,5) have l: "truthy (imageUrl gu) = Some u"
      by (simp add: truthy_Some)
    from that(4,9) have p: "provider cu (regular_auto_url (imageUrl gu) lu) = Inl xu"
      by simp
    from catalog_url_rejects [OF that(1-3) l k that(8) p] show ?thesis
      by simp
  qed
  have g9: "status r \<in> {200, 400, 401, 500}" if "snd (direct_action w') = Inr (Http r)"
    using that
    by (cases w' rule: direct_paths)
      (auto simp add: direct_runs Response_json_def new_Response_def)
  have g10: "status r' \<in> {400, 500}" if "snd (catalog_action w') = Inr (Http r')"
    using that
    by (cases w' rule: catalog_paths) (auto simp add: catalog_runs Response_json_def)
  have f3: "authenticate wi = Inr (Some si) \<and> formData wi = Inr fdi \<and> image fdi = Some fi
        \<and> read_error fi = None \<and> REMOVE_BG_API_KEY wi = Some ki \<and> ki \<noteq> []
        \<and> import_error wi = Some ei \<longrightarrow>
        snd (direct_action wi) = Inr (error_envelope ''Failed to process image'' 500)"
    using g3 by blast
  have f4: "authenticate wp = Inr (Some sp) \<and> formData wp = Inr fdp \<and> image fdp = Some fp
        \<and> read_error fp = None \<and> REMOVE_BG_API_KEY wp = Some kp \<and> kp \<noteq> []
        \<and> import_error wp = None
        \<and> provider wp (regular_auto_base64 (Buffer_toString_base64 (bytes fp)) kp) = Inl ep
        \<longrightarrow>
        snd (direct_action wp) = Inr (error_envelope ''Failed to process image'' 500)"
    using g4 by blast
  have f5: "authenticate ci = Inr ai \<and> formData ci = Inr gi
        \<and> \<not> (no_file (image gi) \<and> truthy (imageUrl gi) = None)
        \<and> REMOVE_BG_API_KEY ci = Some li \<and> li \<noteq> [] \<and> import_error ci = Some xi \<longrightarrow>
        snd (catalog_action ci)
          = Inr (error_envelope (''Failed to process image: '' @ errorMessage xi) 500)"
    using g5 by blast
  have f6: "authenticate cr = Inr ar \<and> formData cr = Inr gr \<and> image gr = Some fr
        \<and> 0 < File_size fr \<and> REMOVE_BG_API_KEY cr = Some lr \<and> lr \<noteq> []
        \<and> import_error cr = None \<and> read_error fr = Some xr \<longrightarrow>
        snd (catalog_action cr)
          = Inr (error_envelope (''Failed to process image: '' @ errorMessage xr) 500)"
    using g6 by blast
  have f7: "authenticate cb = Inr ab \<and> formData cb = Inr gb \<and> image gb = Some fb
        \<and> 0 < File_size fb \<and> REMOVE_BG_API_KEY cb = Some lb \<and> lb \<noteq> []
        \<and> import_error cb = None \<and> read_error fb = None
        \<and> provider cb (regular_auto_base64 (Buffer_toString_base64 (bytes fb)) lb) = Inl xb
        \<longrightarrow>
        snd (catalog_action cb)
          = Inr (error_envelope (''Failed to process image: '' @ errorMessage xb) 500)"
    using g7 by blast
  have f8: "authenticate cu = Inr au \<and> formData cu = Inr gu \<and> no_file (image gu)
        \<and> imageUrl gu = Some u \<and> u \<noteq> [] \<and> REMOVE_BG_API_KEY cu = Some lu \<and> lu \<noteq> []
        \<and> import_error cu = None \<and> provider cu (regular_auto_url (Some u) lu) = Inl xu
        \<longrightarrow>
        snd (catalog_action cu)
          = Inr (error_envelope (''Failed to process image: '' @ errorMessage xu) 500)"
    using g8 by blast
  have f9: "snd (direct_action w') = Inr (Http r) \<longrightarrow> status r \<in> {200, 400, 401, 500}"
    using g9 by blast
  have f10: "snd (catalog_action w') = Inr (Http r') \<longrightarrow> status r' \<in> {400, 500}"
    using g10 by blast
  show ?thesis
    by (intro conjI) (rule f1, rule f2, rule f3, rule f4, rule f5, rule f6, rule f7, rule f8,
      rule f9, rule f10)
qed

text \<open>
  The theorem at work: a file whose reading fails escapes the Direct-Upload handler and is
  answered with 500 by the Catalog-Aware one; a provider library that fails to load and a
  provider that rejects are answered with 500 by both, for an upload and for a URL; and both
  answer a request made without an API key with 500.
\<close>

theorem escaping_exceptions_witness:
  "read_error (example_upload\<lparr>read_error := Some (Error_instance ''read failed'')\<rparr>)
     = Some (Error_instance ''read failed'')
   \<and> snd (direct_action (example_world\<lparr>formData :=
       Inr \<lparr>image = Some (example_upload\<lparr>read_error := Some (Error_instance ''read failed'')\<rparr>),
            imageUrl = None\<rparr>\<rparr>))
     = Inl (Error_instance ''read failed'')
   \<and> snd (catalog_action (example_world\<lparr>formData :=
       Inr \<lparr>image = Some (example_upload\<lparr>read_error := Some (Error_instance ''read failed'')\<rparr>),
            imageUrl = None\<rparr>\<rparr>))
     = Inr (error_envelope ''Failed to process image: read failed'' 500)
   \<and> import_error (example_world\<lparr>import_error := Some (Other_value ''module not found'')\<rparr>)
     = Some (Other_value ''module not found'')
   \<and> snd (direct_action (example_world\<lparr>import_error :=
          Some (Other_value ''module not found'')\<rparr>))
     = Inr (error_envelope ''Failed to process image'' 500)
   \<and> snd (catalog_action (example_world\<lparr>import_error :=
          Some (Other_value ''module not found'')\<rparr>))
     = Inr (error_envelope ''Failed to process image: Unknown error'' 500)
   \<and> provider (example_world\<lparr>provider := \<lambda>rq. Inl (Error_instance ''quota exceeded'')\<rparr>)
        (regular_auto_base64 (Buffer_toString_base64 (bytes example_upload)) ''key'')
     = Inl (Error_instance ''quota exceeded'')
   \<and> snd (direct_action
        (example_world\<lparr>provider := \<lambda>rq. Inl (Error_instance ''quota exceeded'')\<rparr>))
     = Inr (error_envelope ''Failed to process image'' 500)
   \<and> snd (catalog_action
        (example_world\<lparr>provider := \<lambda>rq. Inl (Error_instance ''quota exceeded'')\<rparr>))
     = Inr (error_envelope ''Failed to process image: quota exceeded'' 500)
   \<and> snd (catalog_action
        (example_world\<lparr>formData := Inr \<lparr>image = None, imageUrl = Some ''https://store/img.jpg''\<rparr>,
                        provider := \<lambda>rq. Inl (Error_instance ''quota exceeded'')\<rparr>))
     = Inr (error_envelope ''Failed to process image: quota exceeded'' 500)
   \<and> snd (direct_action (example_world\<lparr>REMOVE_BG_API_KEY := None\<rparr>))
     = Inr (error_envelope ''Background removal service not configured'' 500)
   \<and> status (Response_json
        (JObject [(''error'', JString ''Background removal service not configured'')]) 500)
     \<in> {200, 400, 401, 500}
   \<and> snd (catalog_action (example_world\<lparr>REMOVE_BG_API_KEY := None\<rparr>))
     = Inr (error_envelope
         ''Background removal service not configured (missing REMOVE_BG_API_KEY).'' 500)
   \<and> status (Response_json (JObject [(''error'',
         JString ''Background removal service not configured (missing REMOVE_BG_API_KEY).'')])
       500) \<in> {400, 500}"
proof -
  let ?f = "example_upload\<lparr>read_error := Some (Error_instance ''read failed'')\<rparr>"
  let ?fr = "\<lparr>image = Some ?f, imageUrl = None\<rparr>"
  let ?fd = "\<lparr>image = Some example_upload, imageUrl = None\<rparr>"
  let ?fu = "\<lparr>image = None, imageUrl = Some ''https://store/img.jpg''\<rparr>"
  let ?rd = "example_world\<lparr>formData := Inr ?fr\<rparr>"
  let ?m = "example_world\<lparr>import_error := Some (Other_value ''module not found'')\<rparr>"
  let ?p = "example_world\<lparr>provider := \<lambda>rq. Inl (Error_instance ''quota exceeded'')\<rparr>"
  let ?u = "example_world\<lparr>formData := Inr ?fu,
      provider := \<lambda>rq. Inl (Error_instance ''quota exceeded'')\<rparr>"
  let ?w' = "example_world\<lparr>REMOVE_BG_API_KEY := None\<rparr>"
  let ?r = "Response_json
      (JObject [(''error'', JString ''Background removal service not configured'')]) 500"
  let ?r' = "Response_json (JObject [(''error'',
      JString ''Background removal service not configured (missing REMOVE_BG_API_KEY).'')]) 500"
  let ?s = "''shop-session''"
  have rd: "authenticate ?rd = Inr (Some ?s)" "formData ?rd = Inr ?fr" "image ?fr = Some ?f"
    "read_error ?f = Some (Error_instance ''read failed'')" "0 < File_size ?f"
    "REMOVE_BG_API_KEY ?rd = Some ''key''" "import_error ?rd = None"
    by (simp_all add: example_world_def example_upload_def File_size_def)
  have m: "authenticate ?m = Inr (Some ?s)" "formData ?m = Inr ?fd"
    "image ?fd = Some example_upload" "read_error example_upload = None"
    "REMOVE_BG_API_KEY ?m = Some ''key''"
    "import_error ?m = Some (Other_value ''module not found'')"
    "\<not> (no_file (image ?fd) \<and> truthy (imageUrl ?fd) = None)"
    by (simp_all add: example_world_def example_upload_def File_size_def no_file_def)
  have p: "authenticate ?p = Inr (Some ?s)" "formData ?p = Inr ?fd"
    "REMOVE_BG_API_KEY ?p = Some ''key''" "import_error ?p = None"
    "0 < File_size example_upload"
    "provider ?p (regular_auto_base64 (Buffer_toString_base64 (bytes example_upload)) ''key'')
       = Inl (Error_instance ''quota exceeded'')"
    by (simp_all add: example_world_def example_upload_def File_size_def)
  have u: "authenticate ?u = Inr (Some ?s)" "formData ?u = Inr ?fu" "no_file (image ?fu)"
    "imageUrl ?fu = Some ''https://store/img.jpg''"
    "REMOVE_BG_API_KEY ?u = Some ''key''" "import_error ?u = None"
    "provider ?u (regular_auto_url (Some ''https://store/img.jpg'') ''key'')
       = Inl (Error_instance ''quota exceeded'')"
    by (simp_all add: example_world_def no_file_def)
  have d: "snd (direct_action ?w') = Inr (Http ?r)"
    and c: "snd (catalog_action ?w') = Inr (Http ?r')"
    by (simp_all add: eval_defs)
  from escaping_exceptions
    [where w = ?rd and t = "Error_instance ''read failed''"
       and wi = ?m and si = ?s and fdi = ?fd and fi = example_upload and ki = "''key''"
       and ei = "Other_value ''module not found''"
       and wp = ?p and sp = ?s and fdp = ?fd and fp = example_upload and kp = "''key''"
       and ep = "Error_instance ''quota exceeded''"
       and ci = ?m and ai = "Some ?s" and gi = ?fd and li = "''key''"
       and xi = "Other_value ''module not found''"
       and cr = ?rd and ar = "Some ?s" and gr = ?fr and fr = ?f and lr = "''key''"
       and xr = "Error_instance ''read failed''"
       and cb = ?p and ab = "Some ?s" and gb = ?fd and fb = example_upload and lb = "''key''"
       and xb = "Error_instance ''quota exceeded''"
       and cu = ?u and au = "Some ?s" and gu = ?fu and u = "''https://store/img.jpg''"
       and lu = "''key''" and xu = "Error_instance ''quota exceeded''"
       and w' = ?w' and r = ?r and r' = ?r']
    rd m p u d c
  show ?thesis
    by (simp add: errorMessage_def)
qed

text \<open>
  The claim as stated fails when the body cannot be parsed: \<^verbatim>\<open>request.formData()\<close> is
  awaited outside the \<^verbatim>\<open>try\<close> in both handlers.
\<close>

theorem form_parsing_escapes_counterexample:
  "snd (direct_action (example_world\<lparr>formData :=
       Inl (Error_instance ''Failed to parse body as FormData.'')\<rparr>))
     = Inl (Error_instance ''Failed to parse body as FormData.'')
   \<and> snd (catalog_action (example_world\<lparr>formData :=
       Inl (Error_instance ''Failed to parse body as FormData.'')\<rparr>))
     = Inl (Error_instance ''Failed to parse body as FormData.'')"
  by (simp add: eval_defs)

subsection \<open>C10: an empty file with a URL, and a file without a name\<close>

text \<open>
  C10, amended: a Catalog-Aware request with an empty \<^verbatim>\<open>image\<close> file whose name is not
  empty and a non-empty \<^verbatim>\<open>imageUrl\<close> (authenticated, key configured, import succeeding)
  passes validation and calls the provider once, with the URL variant, and when that call
  resolves the \<^verbatim>\<open>originalName\<close> returned is the name of the empty file. A successful
  request with a non-empty file whose name is empty and no URL returns
  \<^verbatim>\<open>"Processed Image"\<close>.
\<close>

theorem catalog_empty_file_with_url:
  "(authenticate w = Inr s \<and> formData w = Inr fd \<and> image fd = Some f \<and> File_size f = 0
      \<and> name f \<noteq> [] \<and> imageUrl fd = Some u \<and> u \<noteq> []
      \<and> REMOVE_BG_API_KEY w = Some apiKey \<and> apiKey \<noteq> [] \<and> import_error w = None
      \<and> provider w (regular_auto_url (Some u) apiKey) = Inr result \<longrightarrow>
      catalog_action w
        = ([Authenticate, Read_formData, Import_provider,
            Provider_call (regular_auto_url (Some u) apiKey) (Inr result)],
           Inr (success_envelope result (name f))))
   \<and> (Provider_call rq (Inr result') \<in> set (fst (catalog_action w')) \<and> formData w' = Inr fd'
      \<and> image fd' = Some f' \<and> 0 < File_size f' \<and> name f' = []
      \<and> (imageUrl fd' = None \<or> imageUrl fd' = Some []) \<longrightarrow>
      snd (catalog_action w') = Inr (success_envelope result' ''Processed Image''))"
proof -
  have "catalog_action w
      = ([Authenticate, Read_formData, Import_provider,
          Provider_call (regular_auto_url (Some u) apiKey) (Inr result)],
         Inr (success_envelope result (name f)))"
    if "authenticate w = Inr s" "formData w = Inr fd" "image fd = Some f" "File_size f = 0"
      "name f \<noteq> []" "imageUrl fd = Some u" "u \<noteq> []"
      "REMOVE_BG_API_KEY w = Some apiKey" "apiKey \<noteq> []" "import_error w = None"
      "provider w (regular_auto_url (Some u) apiKey) = Inr result"
  proof -
    have n: "no_file (image fd)"
      using that(3,4) by (simp add: no_file_def)
    have l: "truthy (imageUrl fd) = Some u"
      using that(6,7) by (simp add: truthy_Some)
    have key: "truthy (REMOVE_BG_API_KEY w) = Some apiKey"
      using that(8,9) by (simp add: truthy_Some)
    have p: "provider w (regular_auto_url (imageUrl fd) apiKey) = Inr result"
      using that(6,11) by simp
    from catalog_url_resolves [OF that(1,2) n l key that(10) p] that(3,5,6) show ?thesis
      by (simp add: originalName_def)
  qed
  moreover have "snd (catalog_action w') = Inr (success_envelope result' ''Processed Image'')"
    if "Provider_call rq (Inr result') \<in> set (fst (catalog_action w'))" "formData w' = Inr fd'"
      "image fd' = Some f'" "0 < File_size f'" "name f' = []"
      "imageUrl fd' = None \<or> imageUrl fd' = Some []"
  proof -
    have "truthy (imageUrl fd') = None"
      using that(6) by (simp add: truthy_None)
    with that(1-5) show ?thesis
      by (cases w' rule: catalog_paths) (auto simp add: catalog_runs no_file_def originalName_def)
  qed
  ultimately show ?thesis
    by blast
qed

text \<open>
  The theorem at work: an empty file named \<^verbatim>\<open>blank.png\<close> sent with a URL, and a
  three-byte file without a name.
\<close>

theorem catalog_empty_file_with_url_witness:
  "File_size blank_upload = 0
   \<and> name blank_upload \<noteq> []
   \<and> catalog_action (example_world\<lparr>formData :=
         Inr \<lparr>image = Some blank_upload, imageUrl = Some ''https://store/img.jpg''\<rparr>\<rparr>)
     = ([Authenticate, Read_formData, Import_provider,
         Provider_call (regular_auto_url (Some ''https://store/img.jpg'') ''key'')
           (Inr ''iVBORw=='')],
        Inr (success_envelope ''iVBORw=='' ''blank.png''))
   \<and> Provider_call (regular_auto_base64 ''/9j/'' ''key'') (Inr ''iVBORw=='')
     \<in> set (fst (catalog_action (example_world\<lparr>formData :=
           Inr \<lparr>image = Some unnamed_upload, imageUrl = None\<rparr>\<rparr>)))
   \<and> 0 < File_size unnamed_upload
   \<and> name unnamed_upload = []
   \<and> snd (catalog_action (example_world\<lparr>formData :=
           Inr \<lparr>image = Some unnamed_upload, imageUrl = None\<rparr>\<rparr>))
     = Inr (success_envelope ''iVBORw=='' ''Processed Image'')"
proof -
  let ?fd = "\<lparr>image = Some blank_upload, imageUrl = Some ''https://store/img.jpg''\<rparr>"
  let ?fd' = "\<lparr>image = Some unnamed_upload, imageUrl = None\<rparr>"
  let ?w = "example_world\<lparr>formData := Inr ?fd\<rparr>"
  let ?w' = "example_world\<lparr>formData := Inr ?fd'\<rparr>"
  let ?rq = "regular_auto_base64 ''/9j/'' ''key''"
  have w: "authenticate ?w = Inr (Some ''shop-session'')" "formData ?w = Inr ?fd"
    "REMOVE_BG_API_KEY ?w = Some ''key''" "import_error ?w = None"
    "provider ?w (regular_auto_url (Some ''https://store/img.jpg'') ''key'') = Inr ''iVBORw==''"
    by (simp_all add: example_world_def)
  have b: "File_size blank_upload = 0" "name blank_upload = ''blank.png''"
    by (simp_all add: File_size_def blank_upload_def)
  have h: "Provider_call ?rq (Inr ''iVBORw=='') \<in> set (fst (catalog_action ?w'))"
    by (simp add: eval_defs)
  have w': "formData ?w' = Inr ?fd'" "0 < File_size unnamed_upload" "name unnamed_upload = []"
    by (simp_all add: example_world_def File_size_def unnamed_upload_def)
  from catalog_empty_file_with_url
    [of ?w "Some ''shop-session''" ?fd blank_upload "''https://store/img.jpg''" "''key''"
        "''iVBORw==''" ?rq "''iVBORw==''" ?w' ?fd' unnamed_upload] w b h w'
  show ?thesis
    by simp
qed

text \<open>
  The claim as stated fails when the empty file has the empty name, which is what a browser
  sends for a file input left unselected: the name returned is
  \<^verbatim>\<open>"Store Product Image"\<close>.
\<close>

theorem catalog_unselected_file_counterexample:
  "File_size unselected_upload = 0
   \<and> name unselected_upload = []
   \<and> catalog_action (example_world\<lparr>formData :=
         Inr \<lparr>image = Some unselected_upload, imageUrl = Some ''https://store/img.jpg''\<rparr>\<rparr>)
     = ([Authenticate, Read_formData, Import_provider,
         Provider_call (regular_auto_url (Some ''https://store/img.jpg'') ''key'')
           (Inr ''iVBORw=='')],
        Inr (success_envelope ''iVBORw=='' ''Store Product Image''))"
  by (simp add: eval_defs)

end
